theory Spec2Isabelle
  imports Main "HOL-Library.AList" "HOL-Library.FSet" "HOL-Library.Multiset"
begin

section \<open>Chunk store (backend/app/storage.py)\<close>

text \<open>
  Python \<^verbatim>\<open>bytes\<close> are lists of 8-bit characters. The chunk store owns two directories.
  Below the uploads root there is one directory per upload id; it holds the committed chunk
  files \<^verbatim>\<open><index>.chunk\<close>, here an association list from the index to the file's content
  (the temporary \<^verbatim>\<open><index>.chunk.tmp\<close> exists only inside one attempt of \<open>store_chunk\<close>).
  The completed root is a flat directory from file names to contents. Upload ids and file
  names are used as directory keys as they are: they are taken to be plain, non-empty names
  of one path component, since the source joins them to the roots without any check. File
  operations are taken to succeed, apart from the inputs \<open>io\<close>, \<open>rd\<close> and \<open>rmtree_raises\<close>
  below.
\<close>

type_synonym bytes = string

type_synonym chunk_dir = "(int \<times> bytes) list"

record storage =
  uploads :: "string \<rightharpoonup> chunk_dir"
  completed :: "string \<rightharpoonup> bytes"
  completed_dir :: string

datatype py_error =
  ValueError_incomplete "int list"
| FileNotFoundError
| ZeroDivisionError

text \<open>\<^verbatim>\<open>upload_dir.mkdir(parents=True, exist_ok=True)\<close>: creates the directory when it is missing.\<close>

definition mkdir_upload :: "storage \<Rightarrow> string \<Rightarrow> storage" where
  "mkdir_upload fs upload_id =
     (case uploads fs upload_id of
        None \<Rightarrow> fs\<lparr>uploads := (uploads fs)(upload_id \<mapsto> [])\<rparr>
      | Some d \<Rightarrow> fs)"

text \<open>A chunk path is the pair of the upload id and the index; \<open>get_chunk_path\<close> makes the
  directory before it returns the path.\<close>

type_synonym chunk_path = "string \<times> int"

definition get_chunk_path :: "storage \<Rightarrow> string \<Rightarrow> int \<Rightarrow> storage \<times> chunk_path" where
  "get_chunk_path fs upload_id chunk_index = (mkdir_upload fs upload_id, (upload_id, chunk_index))"

text \<open>The content of the file at a chunk path, \<open>None\<close> when the path does not exist.\<close>

definition chunk_file :: "storage \<Rightarrow> chunk_path \<Rightarrow> bytes option" where
  "chunk_file fs p = (case uploads fs (fst p) of None \<Rightarrow> None | Some d \<Rightarrow> map_of d (snd p))"

text \<open>
  \<open>store_chunk\<close> tries up to \<open>max_retries\<close> times. What the operating system does in one
  attempt is an input of the model: the write and the rename succeed, or an \<^verbatim>\<open>OSError\<close> is
  raised (retried), or another exception is raised (not retried). A raised attempt is taken
  to raise when the temporary file is opened, after the directory was made.
\<close>

datatype io_event = Io_ok | Io_oserror | Io_exception

definition max_retries :: nat where
  "max_retries = 3"

definition write_chunk :: "storage \<Rightarrow> string \<Rightarrow> int \<Rightarrow> bytes \<Rightarrow> storage" where
  "write_chunk fs upload_id chunk_index data =
     (case uploads fs upload_id of
        None \<Rightarrow> fs\<lparr>uploads := (uploads fs)(upload_id \<mapsto> [(chunk_index, data)])\<rparr>
      | Some d \<Rightarrow> fs\<lparr>uploads := (uploads fs)(upload_id \<mapsto> AList.update chunk_index data d)\<rparr>)"

fun store_chunk_loop ::
  "nat list \<Rightarrow> (nat \<Rightarrow> io_event) \<Rightarrow> storage \<Rightarrow> string \<Rightarrow> int \<Rightarrow> bytes \<Rightarrow> storage \<times> bool" where
  "store_chunk_loop [] io fs upload_id chunk_index data = (fs, False)"
| "store_chunk_loop (attempt # rest) io fs upload_id chunk_index data =
     (let fs1 = mkdir_upload fs upload_id in
      case io attempt of
        Io_ok \<Rightarrow> (write_chunk fs1 upload_id chunk_index data, True)
      | Io_oserror \<Rightarrow>
          if attempt < max_retries - 1
          then store_chunk_loop rest io fs1 upload_id chunk_index data
          else (fs1, False)
      | Io_exception \<Rightarrow> (fs1, False))"

definition store_chunk ::
  "(nat \<Rightarrow> io_event) \<Rightarrow> storage \<Rightarrow> string \<Rightarrow> int \<Rightarrow> bytes \<Rightarrow> storage \<times> bool" where
  "store_chunk io fs upload_id chunk_index data =
     store_chunk_loop [0..<max_retries] io fs upload_id chunk_index data"

definition chunk_exists :: "storage \<Rightarrow> string \<Rightarrow> int \<Rightarrow> storage \<times> bool" where
  "chunk_exists fs upload_id chunk_index =
     (let (fs1, chunk_path) = get_chunk_path fs upload_id chunk_index
      in (fs1, chunk_file fs1 chunk_path \<noteq> None))"

text \<open>Reading a chunk can raise inside \<open>get_chunk\<close> (the file exists and cannot be read); the
  source catches it and returns \<^verbatim>\<open>None\<close>. Which indices fail to read is the input \<open>rd\<close>.\<close>

definition get_chunk :: "(int \<Rightarrow> bool) \<Rightarrow> storage \<Rightarrow> string \<Rightarrow> int \<Rightarrow> storage \<times> bytes option" where
  "get_chunk rd fs upload_id chunk_index =
     (let (fs1, chunk_path) = get_chunk_path fs upload_id chunk_index
      in case chunk_file fs1 chunk_path of
           None \<Rightarrow> (fs1, None)
         | Some data \<Rightarrow> if rd chunk_index then (fs1, None) else (fs1, Some data))"

definition get_chunk_size :: "storage \<Rightarrow> string \<Rightarrow> int \<Rightarrow> storage \<times> int option" where
  "get_chunk_size fs upload_id chunk_index =
     (let (fs1, chunk_path) = get_chunk_path fs upload_id chunk_index
      in case chunk_file fs1 chunk_path of
           None \<Rightarrow> (fs1, None)
         | Some data \<Rightarrow> (fs1, Some (int (length data))))"

definition list_chunks :: "storage \<Rightarrow> string \<Rightarrow> storage \<times> int list" where
  "list_chunks fs upload_id =
     (case uploads fs upload_id of
        None \<Rightarrow> (fs, [])
      | Some d \<Rightarrow> (fs, sort (map fst d)))"

text \<open>The output of a reassembly: \<^verbatim>\<open>open(output_path, 'wb')\<close> creates or truncates the file,
  \<^verbatim>\<open>outfile.write\<close> appends to it, \<^verbatim>\<open>unlink\<close> removes it.\<close>

definition open_wb :: "storage \<Rightarrow> string \<Rightarrow> storage" where
  "open_wb fs name = fs\<lparr>completed := (completed fs)(name \<mapsto> [])\<rparr>"

definition write_out :: "storage \<Rightarrow> string \<Rightarrow> bytes \<Rightarrow> storage" where
  "write_out fs name data =
     (case completed fs name of
        None \<Rightarrow> fs\<lparr>completed := (completed fs)(name \<mapsto> data)\<rparr>
      | Some old \<Rightarrow> fs\<lparr>completed := (completed fs)(name \<mapsto> old @ data)\<rparr>)"

definition unlink :: "storage \<Rightarrow> string \<Rightarrow> storage" where
  "unlink fs name = fs\<lparr>completed := (completed fs)(name := None)\<rparr>"

text \<open>The \<^verbatim>\<open>for chunk_index in range(total_chunks)\<close> loop; \<open>False\<close> when a chunk was not
  found during reassembly (the \<^verbatim>\<open>ValueError\<close> raised in the loop).\<close>

fun reassemble_loop ::
  "(int \<Rightarrow> bool) \<Rightarrow> storage \<Rightarrow> string \<Rightarrow> string \<Rightarrow> int list \<Rightarrow> storage \<times> bool" where
  "reassemble_loop rd fs upload_id name [] = (fs, True)"
| "reassemble_loop rd fs upload_id name (chunk_index # rest) =
     (case get_chunk rd fs upload_id chunk_index of
        (fs1, None) \<Rightarrow> (fs1, False)
      | (fs1, Some chunk_data) \<Rightarrow>
          reassemble_loop rd (write_out fs1 name chunk_data) upload_id name rest)"

text \<open>The \<^verbatim>\<open>except Exception\<close> handler of \<open>reassemble_file\<close>.\<close>

definition reassemble_failed :: "storage \<Rightarrow> string \<Rightarrow> storage \<times> string option" where
  "reassemble_failed fs name =
     (if completed fs name \<noteq> None then (unlink fs name, None) else (fs, None))"

definition reassemble_file ::
  "(int \<Rightarrow> bool) \<Rightarrow> storage \<Rightarrow> string \<Rightarrow> int \<Rightarrow> string \<Rightarrow> int option \<Rightarrow> storage \<times> string option" where
  "reassemble_file rd fs upload_id total_chunks output_filename expected_size =
     (let (fs0, received_chunks) = list_chunks fs upload_id in
      if set [0..total_chunks - 1] \<noteq> set received_chunks
      then reassemble_failed fs0 output_filename
      else
        (case reassemble_loop rd (open_wb fs0 output_filename) upload_id output_filename
                [0..total_chunks - 1] of
           (fs1, False) \<Rightarrow> reassemble_failed fs1 output_filename
         | (fs1, True) \<Rightarrow>
             (case expected_size of
                None \<Rightarrow> (fs1, Some output_filename)
              | Some expected \<Rightarrow>
                  (case completed fs1 output_filename of
                     None \<Rightarrow> reassemble_failed fs1 output_filename
                   | Some written \<Rightarrow>
                       if int (length written) \<noteq> expected
                       then reassemble_failed (unlink fs1 output_filename) output_filename
                       else (fs1, Some output_filename)))))"

text \<open>\<^verbatim>\<open>shutil.rmtree\<close> can raise; \<open>cleanup_chunks\<close> catches that and returns \<^verbatim>\<open>False\<close>. Whether
  it raises is the input \<open>rmtree_raises\<close>; it is taken to raise before anything is removed.\<close>

definition cleanup_chunks :: "bool \<Rightarrow> storage \<Rightarrow> string \<Rightarrow> storage \<times> bool" where
  "cleanup_chunks rmtree_raises fs upload_id =
     (if uploads fs upload_id \<noteq> None
      then (if rmtree_raises then (fs, False)
            else (fs\<lparr>uploads := (uploads fs)(upload_id := None)\<rparr>, True))
      else (fs, True))"

text \<open>
  \<open>get_file_checksum\<close> feeds the file to \<^verbatim>\<open>hashlib.sha256()\<close> in blocks of 4096 bytes.
  The hash object is the standard library's: it is modelled by the bytes fed to it so far,
  and \<^verbatim>\<open>hexdigest\<close> is the parameter \<open>hexdigest\<close>, a function of those bytes.
\<close>

function read_blocks :: "nat \<Rightarrow> bytes \<Rightarrow> bytes list" where
  "read_blocks n bs = (if n = 0 \<or> bs = [] then [] else take n bs # read_blocks n (drop n bs))"
  by pat_completeness auto
termination
  by (relation "measure (\<lambda>(n, bs). length bs)") auto

declare read_blocks.simps [simp del]

definition get_file_checksum :: "(bytes \<Rightarrow> string) \<Rightarrow> storage \<Rightarrow> string \<Rightarrow> py_error + string" where
  "get_file_checksum hexdigest fs filepath =
     (case completed fs filepath of
        None \<Rightarrow> Inl FileNotFoundError
      | Some content \<Rightarrow> Inr (hexdigest (foldl (@) [] (read_blocks 4096 content))))"


section \<open>Upload service (backend/app/upload_service.py)\<close>

text \<open>Time stamps (\<^verbatim>\<open>datetime.now\<close>) and fresh ids (\<^verbatim>\<open>uuid.uuid4\<close>) come from the
  environment: they are parameters, and a time stamp is its text.\<close>

record upload_session =
  upload_id :: string
  filename :: string
  total_size :: int
  total_chunks :: int
  chunk_size :: int
  checksum :: "string option"
  created_at :: string
  received_chunks :: "int fset"

definition is_complete :: "upload_session \<Rightarrow> bool" where
  "is_complete session = (int (fcard (received_chunks session)) = total_chunks session)"

definition get_missing_chunks :: "upload_session \<Rightarrow> int list" where
  "get_missing_chunks session =
     (let all_chunks = fset_of_list [0..total_chunks session - 1]
      in sorted_list_of_fset (all_chunks |-| received_chunks session))"

record init_upload_request =
  req_filename :: string
  req_totalSize :: int
  req_checksum :: "string option"

record file_metadata =
  md_uploadId :: string
  md_filename :: string
  md_size :: int
  md_checksum :: "string option"
  md_timestamp :: string
  md_fileType :: string
  md_filepath :: string

record upload_service =
  storage :: storage
  svc_chunk_size :: int
  sessions :: "string \<rightharpoonup> upload_session"

text \<open>The third component of the result of \<open>upload_chunk\<close> is a message; each constructor
  stands for one of the source's texts:
  \<^item> \<open>Session_not_found id\<close>: \<^verbatim>\<open>Upload session {id} not found\<close>
  \<^item> \<open>Invalid_chunk_index i\<close>: \<^verbatim>\<open>Invalid chunk index: {i}\<close>
  \<^item> \<open>Total_chunks_mismatch e g\<close>: \<^verbatim>\<open>Total chunks mismatch: expected {e}, got {g}\<close>
  \<^item> \<open>Chunk_already_uploaded\<close>: \<^verbatim>\<open>Chunk already uploaded (idempotent)\<close>
  \<^item> \<open>Chunk_uploaded_successfully\<close>: \<^verbatim>\<open>Chunk uploaded successfully\<close>
  \<^item> \<open>Failed_to_store_chunk\<close>: \<^verbatim>\<open>Failed to store chunk\<close>\<close>

datatype message =
  Session_not_found string
| Invalid_chunk_index int
| Total_chunks_mismatch int int
| Chunk_already_uploaded
| Chunk_uploaded_successfully
| Failed_to_store_chunk

text \<open>\<open>init_upload\<close>: \<open>new_id\<close> is the text of the fresh UUID and \<open>now\<close> the time stamp.
  Python's \<^verbatim>\<open>//\<close> is floor division, as \<open>div\<close> on \<open>int\<close> is; it raises for a zero divisor.\<close>

definition init_upload ::
  "string \<Rightarrow> string \<Rightarrow> upload_service \<Rightarrow> init_upload_request
     \<Rightarrow> py_error + (upload_service \<times> string \<times> int)" where
  "init_upload new_id now svc request =
     (if svc_chunk_size svc = 0 then Inl ZeroDivisionError
      else
        let n_chunks = (req_totalSize request + svc_chunk_size svc - 1) div svc_chunk_size svc;
            session = \<lparr>upload_id = new_id, filename = req_filename request,
                       total_size = req_totalSize request, total_chunks = n_chunks,
                       chunk_size = svc_chunk_size svc, checksum = req_checksum request,
                       created_at = now, received_chunks = {||}\<rparr>
        in Inr (svc\<lparr>sessions := (sessions svc)(new_id \<mapsto> session)\<rparr>, new_id, svc_chunk_size svc))"

definition get_session :: "upload_service \<Rightarrow> string \<Rightarrow> upload_session option" where
  "get_session svc uid = sessions svc uid"

definition get_or_create_session_from_storage ::
  "upload_service \<Rightarrow> string \<Rightarrow> upload_service \<times> upload_session option" where
  "get_or_create_session_from_storage svc uid =
     (case sessions svc uid of
        Some session \<Rightarrow> (svc, Some session)
      | None \<Rightarrow>
          let (fs1, received) = list_chunks (storage svc) uid
          in if received = [] then (svc\<lparr>storage := fs1\<rparr>, None)
             else (svc\<lparr>storage := fs1\<rparr>, None))"

text \<open>\<open>upload_chunk\<close> returns the service (its registry and its store, both possibly
  updated) and the triple of the source. The session object is mutated in place, which is an
  update of the registry entry.\<close>

definition len_received :: "upload_session \<Rightarrow> int" where
  "len_received session = int (fcard (received_chunks session))"

definition add_received :: "upload_session \<Rightarrow> int \<Rightarrow> upload_session" where
  "add_received session chunk_index =
     session\<lparr>received_chunks := finsert chunk_index (received_chunks session)\<rparr>"

definition upload_chunk_store ::
  "(nat \<Rightarrow> io_event) \<Rightarrow> upload_service \<Rightarrow> string \<Rightarrow> upload_session \<Rightarrow> int \<Rightarrow> bytes
     \<Rightarrow> upload_service \<times> bool \<times> int \<times> message" where
  "upload_chunk_store io svc uid session chunk_index chunk_data =
     (let (fs1, success) = store_chunk io (storage svc) uid chunk_index chunk_data;
          svc1 = svc\<lparr>storage := fs1\<rparr>
      in if success
         then let session1 = add_received session chunk_index
              in (svc1\<lparr>sessions := (sessions svc1)(uid \<mapsto> session1)\<rparr>,
                  True, len_received session1, Chunk_uploaded_successfully)
         else (svc1, False, len_received session, Failed_to_store_chunk))"

definition upload_chunk ::
  "(nat \<Rightarrow> io_event) \<Rightarrow> upload_service \<Rightarrow> string \<Rightarrow> int \<Rightarrow> bytes \<Rightarrow> int
     \<Rightarrow> upload_service \<times> bool \<times> int \<times> message" where
  "upload_chunk io svc uid chunk_index chunk_data claimed =
     (case (case get_session svc uid of
              None \<Rightarrow> get_or_create_session_from_storage svc uid
            | Some session \<Rightarrow> (svc, Some session)) of
        (svc0, None) \<Rightarrow> (svc0, False, 0, Session_not_found uid)
      | (svc0, Some session) \<Rightarrow>
          if chunk_index < 0 \<or> chunk_index \<ge> total_chunks session
          then (svc0, False, len_received session, Invalid_chunk_index chunk_index)
          else if claimed \<noteq> total_chunks session
          then (svc0, False, len_received session,
                Total_chunks_mismatch (total_chunks session) claimed)
          else
            let (fs1, exists) = chunk_exists (storage svc0) uid chunk_index;
                svc1 = svc0\<lparr>storage := fs1\<rparr>
            in if exists
               then
                 let (fs2, existing_size) = get_chunk_size fs1 uid chunk_index;
                     svc2 = svc1\<lparr>storage := fs2\<rparr>
                 in if existing_size = Some (int (length chunk_data))
                    then
                      let session1 = (if chunk_index |\<notin>| received_chunks session
                                      then add_received session chunk_index else session)
                      in (svc2\<lparr>sessions := (sessions svc2)(uid \<mapsto> session1)\<rparr>,
                          True, len_received session1, Chunk_already_uploaded)
                    else upload_chunk_store io svc2 uid session chunk_index chunk_data
               else upload_chunk_store io svc1 uid session chunk_index chunk_data)"

text \<open>The status dictionary of \<open>get_upload_status\<close>; \<^verbatim>\<open>total_chunks\<close> is \<^verbatim>\<open>None\<close> in the
  partial status.\<close>

record status_dict =
  sd_upload_id :: string
  sd_total_chunks :: "int option"
  sd_received_chunks :: "int list"
  sd_is_complete :: bool

definition get_upload_status :: "upload_service \<Rightarrow> string \<Rightarrow> upload_service \<times> status_dict option" where
  "get_upload_status svc uid =
     (case get_session svc uid of
        None \<Rightarrow>
          let (fs1, received) = list_chunks (storage svc) uid;
              svc1 = svc\<lparr>storage := fs1\<rparr>
          in if received = [] then (svc1, None)
             else (svc1, Some \<lparr>sd_upload_id = uid, sd_total_chunks = None,
                                sd_received_chunks = sort received, sd_is_complete = False\<rparr>)
      | Some session \<Rightarrow>
          (svc, Some \<lparr>sd_upload_id = uid, sd_total_chunks = Some (total_chunks session),
                      sd_received_chunks = sorted_list_of_fset (received_chunks session),
                      sd_is_complete = is_complete session\<rparr>))"

text \<open>\<open>_detect_file_type\<close>. \<^verbatim>\<open>filename.split('.')[-1]\<close> is the text after the last dot;
  \<^verbatim>\<open>lower()\<close> is modelled on ASCII letters (file names are taken to be ASCII text).\<close>

definition char_lower :: "char \<Rightarrow> char" where
  "char_lower c =
     (let n = (of_char c :: nat)
      in if of_char CHR ''A'' \<le> n \<and> n \<le> of_char CHR ''Z'' then char_of (n + 32) else c)"

definition str_lower :: "string \<Rightarrow> string" where
  "str_lower s = map char_lower s"

definition after_last_dot :: "string \<Rightarrow> string" where
  "after_last_dot s = rev (takeWhile (\<lambda>c. c \<noteq> CHR ''.'') (rev s))"

definition dataset_extensions :: "string list" where
  "dataset_extensions = [''jsonl'', ''json'', ''csv'', ''parquet'', ''tsv'', ''txt'']"

definition model_extensions :: "string list" where
  "model_extensions = [''pt'', ''pth'', ''ckpt'', ''safetensors'', ''onnx'', ''pb'', ''h5'']"

definition archive_extensions :: "string list" where
  "archive_extensions = [''zip'', ''tar'', ''gz'', ''bz2'']"

definition detect_file_type :: "string \<Rightarrow> string" where
  "detect_file_type name =
     (let ext = (if CHR ''.'' \<in> set name then str_lower (after_last_dot name) else [])
      in if ext \<in> set dataset_extensions then ''dataset''
         else if ext \<in> set model_extensions then ''model_artifact''
         else if ext \<in> set archive_extensions then ''archive''
         else ''unknown'')"

text \<open>\<^verbatim>\<open>if session.checksum\<close>: \<^verbatim>\<open>None\<close> and the empty string are false.\<close>

definition truthy :: "string option \<Rightarrow> bool" where
  "truthy c = (case c of None \<Rightarrow> False | Some s \<Rightarrow> s \<noteq> [])"

text \<open>\<^verbatim>\<open>str(output_path)\<close> for the path \<^verbatim>\<open>completed_dir / name\<close>.\<close>

definition str_path :: "storage \<Rightarrow> string \<Rightarrow> string" where
  "str_path fs name = completed_dir fs @ ''/'' @ name"

text \<open>
  \<open>complete_upload\<close> returns the service and either the exception it raised (\<open>Inl\<close>) or its
  return value (\<open>Inr\<close>): \<^verbatim>\<open>None\<close>, or the path and the metadata. A path in the completed root
  is the file's name there. \<open>hexdigest\<close>, \<open>rd\<close> and \<open>rm\<close> (whether \<^verbatim>\<open>rmtree\<close> raises) are the
  parameters of the chunk store and \<open>now\<close> is the time stamp of the metadata.
\<close>

definition complete_upload ::
  "(bytes \<Rightarrow> string) \<Rightarrow> (int \<Rightarrow> bool) \<Rightarrow> bool \<Rightarrow> string \<Rightarrow> upload_service \<Rightarrow> string
     \<Rightarrow> upload_service \<times> (py_error + (string \<times> file_metadata) option)" where
  "complete_upload hexdigest rd rm now svc uid =
     (case get_session svc uid of
        None \<Rightarrow> (svc, Inr None)
      | Some session \<Rightarrow>
          if \<not> is_complete session
          then (svc, Inl (ValueError_incomplete (get_missing_chunks session)))
          else
            let (fs1, output_path) =
                  reassemble_file rd (storage svc) uid (total_chunks session) (filename session)
                    (Some (total_size session));
                svc1 = svc\<lparr>storage := fs1\<rparr>
            in case output_path of
                 None \<Rightarrow> (svc1, Inr None)
               | Some path \<Rightarrow>
                   (case (if truthy (checksum session)
                          then map_sum id Some (get_file_checksum hexdigest fs1 path)
                          else Inr None) of
                      Inl err \<Rightarrow> (svc1, Inl err)
                    | Inr file_checksum \<Rightarrow>
                        let file_type = detect_file_type (filename session);
                            metadata = \<lparr>md_uploadId = uid, md_filename = filename session,
                                        md_size = total_size session, md_checksum = file_checksum,
                                        md_timestamp = now, md_fileType = file_type,
                                        md_filepath = str_path fs1 path\<rparr>;
                            (fs2, cleaned) = cleanup_chunks rm fs1 uid;
                            svc2 = svc1\<lparr>storage := fs2\<rparr>;
                            svc3 = (if sessions svc2 uid \<noteq> None
                                    then svc2\<lparr>sessions := (sessions svc2)(uid := None)\<rparr>
                                    else svc2)
                        in (svc3, Inr (Some (path, metadata)))))"


section \<open>Post-completion hooks (backend/app/ai_integration.py)\<close>

text \<open>
  \<open>validate_dataset\<close> opens the completed file as UTF-8 text and iterates over its lines.
  A Python \<^verbatim>\<open>str\<close> is a list of code points. The text layer of the runtime reads and decodes
  the file buffer by buffer as the loop asks for the next line, so the loop sees a sequence
  of reads: each yields a line (with its line end, when it has one) or raises (bytes that
  are not UTF-8, an error of the operating system), and the sequence ends with the file.
  That sequence is the parameter \<open>read_lines\<close>, a function of the file's bytes; the loop
  takes the reads from the front and asks for none after one that raised.
  \<^verbatim>\<open>json.loads\<close> is the parameter \<open>loads\<close>: on a text it returns a value, raises
  \<^verbatim>\<open>JSONDecodeError\<close>, or raises another exception (\<^verbatim>\<open>RecursionError\<close> on deep nesting,
  \<^verbatim>\<open>ValueError\<close> on an integer of more digits than the interpreter converts).
\<close>

type_synonym py_str = "int list"

datatype read_event = Line py_str | Read_error

datatype loads_result = Loads_value | Json_decode_error | Other_exception

text \<open>\<^verbatim>\<open>str.strip()\<close> removes the code points for which \<^verbatim>\<open>str.isspace\<close> holds from both ends.\<close>

definition py_isspace :: "int \<Rightarrow> bool" where
  "py_isspace n =
     ((9 \<le> n \<and> n \<le> 13) \<or> (28 \<le> n \<and> n \<le> 32) \<or> n = 133 \<or> n = 160 \<or> n = 5760 \<or>
      (8192 \<le> n \<and> n \<le> 8202) \<or> n = 8232 \<or> n = 8233 \<or> n = 8239 \<or> n = 8287 \<or> n = 12288)"

definition strip :: "py_str \<Rightarrow> py_str" where
  "strip s = rev (dropWhile py_isspace (rev (dropWhile py_isspace s)))"

text \<open>\<^verbatim>\<open>Path.suffix\<close> of a plain name: the text from the last dot on, when that dot is neither
  the first nor the last character of the name.\<close>

definition path_suffix :: "string \<Rightarrow> string" where
  "path_suffix name =
     (let post = after_last_dot name
      in if CHR ''.'' \<in> set name \<and> post \<noteq> [] \<and> length post + 1 < length name
         then CHR ''.'' # post else [])"

text \<open>The second component of the result of \<open>validate_dataset\<close>:
  \<^item> \<open>Invalid_dataset_format ext\<close>: \<^verbatim>\<open>Invalid dataset format: {ext}. Expected one of ...\<close>
  \<^item> \<open>Invalid_jsonl_at_line n\<close>: \<^verbatim>\<open>Invalid JSONL format at line {n}\<close>
  \<^item> \<open>Validation_error\<close>: \<^verbatim>\<open>Validation error: {e}\<close>\<close>

datatype validation_message =
  Invalid_dataset_format string
| Invalid_jsonl_at_line nat
| Validation_error

definition valid_extensions :: "string list" where
  "valid_extensions = [''.jsonl'', ''.json'', ''.csv'', ''.parquet'', ''.tsv'', ''.txt'']"

text \<open>The loop \<^verbatim>\<open>for i, line in enumerate(f)\<close> of \<open>validate_dataset\<close> over the reads that are
  left. The next line is read before \<^verbatim>\<open>i >= 10\<close> is tested, so the eleventh read can still
  raise. \<^verbatim>\<open>JSONDecodeError\<close> is caught in the loop and gives the line number; a read that
  raises and any other exception of \<^verbatim>\<open>json.loads\<close> reach the outer handler.\<close>

fun check_jsonl ::
  "(py_str \<Rightarrow> loads_result) \<Rightarrow> nat \<Rightarrow> read_event list \<Rightarrow> bool \<times> validation_message option" where
  "check_jsonl loads i [] = (True, None)"
| "check_jsonl loads i (Read_error # rest) = (False, Some Validation_error)"
| "check_jsonl loads i (Line line # rest) =
     (if i \<ge> 10 then (True, None)
      else case loads (strip line) of
             Loads_value \<Rightarrow> check_jsonl loads (i + 1) rest
           | Json_decode_error \<Rightarrow> (False, Some (Invalid_jsonl_at_line (i + 1)))
           | Other_exception \<Rightarrow> (False, Some Validation_error))"

definition validate_dataset ::
  "(py_str \<Rightarrow> loads_result) \<Rightarrow> (bytes \<Rightarrow> read_event list) \<Rightarrow> storage \<Rightarrow> string \<Rightarrow> string
     \<Rightarrow> bool \<times> validation_message option" where
  "validate_dataset loads read_lines fs filepath file_type =
     (if file_type \<noteq> ''dataset'' then (True, None)
      else
        let ext = str_lower (path_suffix filepath)
        in if ext \<notin> set valid_extensions then (False, Some (Invalid_dataset_format ext))
           else if ext = ''.jsonl''
           then (case completed fs filepath of
                   None \<Rightarrow> (False, Some Validation_error)
                 | Some content \<Rightarrow> check_jsonl loads 0 (read_lines content))
           else (True, None))"

definition validate_schema :: "storage \<Rightarrow> string \<Rightarrow> string \<Rightarrow> bool \<times> string option" where
  "validate_schema fs filepath file_type =
     (if file_type \<noteq> ''dataset'' then (True, None) else (True, None))"

definition scan_file :: "storage \<Rightarrow> string \<Rightarrow> bool \<times> string option" where
  "scan_file fs filepath = (True, None)"

text \<open>The enhanced metadata of \<open>generate_metadata\<close>: the base metadata (the lineage repeats
  its time stamp), with \<^verbatim>\<open>dataset_info\<close> for a dataset and \<^verbatim>\<open>model_info\<close> for a model artifact.
  \<open>_estimate_record_count\<close> counts the lines of the file read as bytes: in binary mode a
  line ends with the byte \<^verbatim>\<open>\n\<close> and keeps it.\<close>

definition LF :: char where
  "LF = CHR 0x0A"

fun lines_from :: "bytes \<Rightarrow> bytes \<Rightarrow> bytes list" where
  "lines_from line [] = (if line = [] then [] else [line])"
| "lines_from line (c # cs) =
     (if c = LF then (line @ [c]) # lines_from [] cs else lines_from (line @ [c]) cs)"

record enhanced_metadata =
  em_base :: file_metadata
  em_dataset_info :: "(string \<times> int option) option"
  em_model_info :: "(string \<times> string) option"

definition estimate_record_count :: "storage \<Rightarrow> string \<Rightarrow> int option" where
  "estimate_record_count fs filepath =
     (let ext = str_lower (path_suffix filepath)
      in if ext = ''.jsonl''
         then (case completed fs filepath of
                 None \<Rightarrow> None
               | Some content \<Rightarrow> Some (int (length (lines_from [] content))))
         else if ext = ''.csv''
         then (case completed fs filepath of
                 None \<Rightarrow> None
               | Some content \<Rightarrow> Some (max 0 (int (length (lines_from [] content)) - 1)))
         else None)"

definition detect_model_framework :: "string \<Rightarrow> string" where
  "detect_model_framework filepath =
     (let ext = str_lower (path_suffix filepath)
      in case map_of [(''.pt'', ''pytorch''), (''.pth'', ''pytorch''), (''.ckpt'', ''pytorch''),
                      (''.safetensors'', ''safetensors''), (''.onnx'', ''onnx''),
                      (''.pb'', ''tensorflow''), (''.h5'', ''keras'')] ext of
           None \<Rightarrow> ''unknown''
         | Some framework \<Rightarrow> framework)"

definition generate_metadata :: "storage \<Rightarrow> string \<Rightarrow> string \<Rightarrow> file_metadata \<Rightarrow> enhanced_metadata" where
  "generate_metadata fs filepath uid metadata =
     (if md_fileType metadata = ''dataset''
      then \<lparr>em_base = metadata,
            em_dataset_info =
              Some (str_lower (path_suffix filepath), estimate_record_count fs filepath),
            em_model_info = None\<rparr>
      else if md_fileType metadata = ''model_artifact''
      then \<lparr>em_base = metadata, em_dataset_info = None,
            em_model_info =
              Some (str_lower (path_suffix filepath), detect_model_framework filepath)\<rparr>
      else \<lparr>em_base = metadata, em_dataset_info = None, em_model_info = None\<rparr>)"

text \<open>The metadata store is the list under \<^verbatim>\<open>"uploads"\<close> of the JSON file; an entry is the id,
  the time of registration and the enhanced metadata.\<close>

type_synonym metadata_store = "(string \<times> string \<times> enhanced_metadata) list"

definition register_dataset ::
  "string \<Rightarrow> metadata_store \<Rightarrow> string \<Rightarrow> enhanced_metadata \<Rightarrow> metadata_store \<times> string" where
  "register_dataset registered_at store uid metadata =
     (store @ [(uid, registered_at, metadata)], uid)"

definition notify_fine_tuning_pipeline :: "string \<Rightarrow> enhanced_metadata \<Rightarrow> string option" where
  "notify_fine_tuning_pipeline filepath metadata = None"

definition notify_data_curation_system :: "string \<Rightarrow> enhanced_metadata \<Rightarrow> string option" where
  "notify_data_curation_system filepath metadata = None"

section \<open>HTTP endpoints (backend/app/main.py)\<close>

text \<open>The application is the upload service and the metadata store. An endpoint returns
  the application and either the \<^verbatim>\<open>HTTPException\<close> it raised or its response. The details:
  \<^item> \<open>Detail_session_not_found id\<close>: \<^verbatim>\<open>Upload session {id} not found\<close>
  \<^item> \<open>Detail_failed_to_complete\<close>: \<^verbatim>\<open>Failed to complete upload\<close>
  \<^item> \<open>Detail_validation_failed m\<close>: \<^verbatim>\<open>Validation failed: {m}\<close>
  \<^item> \<open>Detail_schema_failed m\<close>: \<^verbatim>\<open>Schema validation failed: {m}\<close>
  \<^item> \<open>Detail_scan_failed m\<close>: \<^verbatim>\<open>Security scan failed: {m}\<close>
  \<^item> \<open>Detail_incomplete missing\<close>: \<^verbatim>\<open>Upload incomplete: missing chunks {missing}\<close>
  \<^item> \<open>Detail_internal e\<close>: \<^verbatim>\<open>Failed to complete upload: {e}\<close>
  \<^item> \<open>Detail_chunk m\<close>: the message of \<open>upload_chunk\<close>\<close>

datatype detail =
  Detail_session_not_found string
| Detail_failed_to_complete
| Detail_validation_failed "validation_message option"
| Detail_schema_failed "string option"
| Detail_scan_failed "string option"
| Detail_incomplete "int list"
| Detail_internal py_error
| Detail_chunk message

record http_exception =
  status_code :: int
  detail :: detail

record upload_status_response =
  sr_uploadId :: string
  sr_totalChunks :: int
  sr_receivedChunks :: "int list"
  sr_isComplete :: bool

record complete_upload_response =
  cr_success :: bool
  cr_filepath :: string
  cr_metadata :: file_metadata
  cr_downstreamJobId :: "string option"
  cr_message :: string

record app =
  service :: upload_service
  metadata_store :: metadata_store

definition http_get_upload_status ::
  "app \<Rightarrow> string \<Rightarrow> app \<times> (http_exception + upload_status_response)" where
  "http_get_upload_status a uid =
     (let (svc1, status) = get_upload_status (service a) uid;
          a1 = a\<lparr>service := svc1\<rparr>
      in case status of
           None \<Rightarrow> (a1, Inl \<lparr>status_code = 404, detail = Detail_session_not_found uid\<rparr>)
         | Some st \<Rightarrow>
             (case sd_total_chunks st of
                None \<Rightarrow>
                  let received = sd_received_chunks st
                  in if received \<noteq> []
                     then
                       let estimated_total = Max (set received) + 1
                       in (a1, Inr \<lparr>sr_uploadId = uid, sr_totalChunks = estimated_total,
                                    sr_receivedChunks = received,
                                    sr_isComplete = (int (length received) = estimated_total)\<rparr>)
                     else (a1, Inl \<lparr>status_code = 404, detail = Detail_session_not_found uid\<rparr>)
              | Some n \<Rightarrow>
                  (a1, Inr \<lparr>sr_uploadId = sd_upload_id st, sr_totalChunks = n,
                             sr_receivedChunks = sd_received_chunks st,
                             sr_isComplete = sd_is_complete st\<rparr>)))"

text \<open>\<^verbatim>\<open>file_path.unlink()\<close> in the endpoint raises when the file is missing, which the
  endpoint turns into status 500.\<close>

definition veto ::
  "app \<Rightarrow> upload_service \<Rightarrow> string \<Rightarrow> detail \<Rightarrow> app \<times> (http_exception + complete_upload_response)" where
  "veto a svc file_path reason =
     (case completed (storage svc) file_path of
        None \<Rightarrow>
          (a\<lparr>service := svc\<rparr>,
           Inl \<lparr>status_code = 500, detail = Detail_internal FileNotFoundError\<rparr>)
      | Some content \<Rightarrow>
          (a\<lparr>service := svc\<lparr>storage := unlink (storage svc) file_path\<rparr>\<rparr>,
           Inl \<lparr>status_code = 400, detail = reason\<rparr>))"

definition http_complete_upload ::
  "(bytes \<Rightarrow> string) \<Rightarrow> (int \<Rightarrow> bool) \<Rightarrow> bool \<Rightarrow> (py_str \<Rightarrow> loads_result)
     \<Rightarrow> (bytes \<Rightarrow> read_event list) \<Rightarrow> string \<Rightarrow> string \<Rightarrow> app \<Rightarrow> string
     \<Rightarrow> app \<times> (http_exception + complete_upload_response)" where
  "http_complete_upload hexdigest rd rm loads read_lines now registered_at a uid =
     (case complete_upload hexdigest rd rm now (service a) uid of
        (svc1, Inl (ValueError_incomplete missing)) \<Rightarrow>
          (a\<lparr>service := svc1\<rparr>, Inl \<lparr>status_code = 400, detail = Detail_incomplete missing\<rparr>)
      | (svc1, Inl FileNotFoundError) \<Rightarrow>
          (a\<lparr>service := svc1\<rparr>,
           Inl \<lparr>status_code = 500, detail = Detail_internal FileNotFoundError\<rparr>)
      | (svc1, Inl ZeroDivisionError) \<Rightarrow>
          (a\<lparr>service := svc1\<rparr>,
           Inl \<lparr>status_code = 500, detail = Detail_internal ZeroDivisionError\<rparr>)
      | (svc1, Inr None) \<Rightarrow>
          (a\<lparr>service := svc1\<rparr>, Inl \<lparr>status_code = 400, detail = Detail_failed_to_complete\<rparr>)
      | (svc1, Inr (Some (file_path, metadata))) \<Rightarrow>
          let (is_valid, validation_error) =
                validate_dataset loads read_lines (storage svc1) file_path (md_fileType metadata)
          in if \<not> is_valid then veto a svc1 file_path (Detail_validation_failed validation_error)
             else
               let (schema_valid, schema_error) =
                     validate_schema (storage svc1) file_path (md_fileType metadata)
               in if \<not> schema_valid then veto a svc1 file_path (Detail_schema_failed schema_error)
                  else
                    let (is_safe, scan_error) = scan_file (storage svc1) file_path
                    in if \<not> is_safe then veto a svc1 file_path (Detail_scan_failed scan_error)
                       else
                         let enhanced = generate_metadata (storage svc1) file_path uid metadata;
                             store1 = (if md_fileType metadata = ''dataset''
                                       then fst (register_dataset registered_at (metadata_store a)
                                                   uid enhanced)
                                       else metadata_store a);
                             downstream_job_id =
                               (if md_fileType metadata = ''dataset''
                                then notify_fine_tuning_pipeline file_path enhanced
                                else None)
                         in (a\<lparr>service := svc1, metadata_store := store1\<rparr>,
                             Inr \<lparr>cr_success = True,
                                  cr_filepath = str_path (storage svc1) file_path,
                                  cr_metadata = metadata,
                                  cr_downstreamJobId = downstream_job_id,
                                  cr_message = ''Upload completed successfully''\<rparr>))"

section \<open>Concrete states for the examples\<close>

definition empty_storage :: storage where
  "empty_storage = \<lparr>uploads = Map.empty, completed = Map.empty, completed_dir = ''completed''\<rparr>"

definition session0 :: upload_session where
  "session0 = \<lparr>upload_id = ''u1'', filename = ''a.bin'', total_size = 4, total_chunks = 2,
     chunk_size = 2, checksum = None, created_at = ''t0'', received_chunks = {||}\<rparr>"

definition service0 :: upload_service where
  "service0 = \<lparr>storage = empty_storage, svc_chunk_size = 2, sessions = [''u1'' \<mapsto> session0]\<rparr>"

definition io_good :: "nat \<Rightarrow> io_event" where
  "io_good attempt = Io_ok"

definition io_down :: "nat \<Rightarrow> io_event" where
  "io_down attempt = Io_oserror"

definition app0 :: app where
  "app0 = \<lparr>service = service0, metadata_store = []\<rparr>"

definition restarted_service :: upload_service where
  "restarted_service =
     \<lparr>storage = empty_storage\<lparr>uploads := [''u2'' \<mapsto> [(2, ''cd''), (0, ''ab'')]]\<rparr>,
      svc_chunk_size = 2, sessions = Map.empty\<rparr>"

definition restarted_app :: app where
  "restarted_app = \<lparr>service = restarted_service, metadata_store = []\<rparr>"

text \<open>Calling \<open>upload_chunk\<close> \<open>n\<close> times with the same arguments; \<open>ios k\<close> is what the
  operating system does during the \<open>k\<close>-th call.\<close>

fun upload_chunk_times ::
  "nat \<Rightarrow> (nat \<Rightarrow> nat \<Rightarrow> io_event) \<Rightarrow> upload_service \<Rightarrow> string \<Rightarrow> int \<Rightarrow> bytes \<Rightarrow> int
     \<Rightarrow> upload_service" where
  "upload_chunk_times 0 ios svc uid chunk_index chunk_data claimed = svc"
| "upload_chunk_times (Suc n) ios svc uid chunk_index chunk_data claimed =
     upload_chunk_times n (\<lambda>k. ios (Suc k))
       (fst (upload_chunk (ios 0) svc uid chunk_index chunk_data claimed))
       uid chunk_index chunk_data claimed"

definition service1 :: upload_service where
  "service1 =
     \<lparr>storage = empty_storage\<lparr>uploads := [''u1'' \<mapsto> [(0, ''ab'')]]\<rparr>, svc_chunk_size = 2,
      sessions = [''u1'' \<mapsto> session0\<lparr>received_chunks := {|0|}\<rparr>]\<rparr>"

definition example_hexdigest :: "bytes \<Rightarrow> string" where
  "example_hexdigest content = replicate 64 CHR ''0''"

definition read_all :: "int \<Rightarrow> bool" where
  "read_all chunk_index = False"


text \<open>The format of a SHA-256 \<^verbatim>\<open>hexdigest\<close>: 64 lowercase hexadecimal digits.\<close>

definition is_sha256_hex :: "string \<Rightarrow> bool" where
  "is_sha256_hex h = (length h = 64 \<and> set h \<subseteq> set ''0123456789abcdef'')"

definition service_full :: upload_service where
  "service_full =
     \<lparr>storage = empty_storage\<lparr>uploads := [''u1'' \<mapsto> [(1, ''cd''), (0, ''ab'')]]\<rparr>,
      svc_chunk_size = 2,
      sessions = [''u1'' \<mapsto> session0\<lparr>received_chunks := {|0, 1|}\<rparr>]\<rparr>"

definition service_done :: upload_service where
  "service_done =
     \<lparr>storage = empty_storage\<lparr>completed := [''a.bin'' \<mapsto> ''abcd'']\<rparr>,
      svc_chunk_size = 2, sessions = Map.empty\<rparr>"


definition metadata0 :: file_metadata where
  "metadata0 =
     \<lparr>md_uploadId = ''u1'', md_filename = ''a.bin'', md_size = 4, md_checksum = None,
      md_timestamp = ''t1'', md_fileType = ''unknown'', md_filepath = ''completed/a.bin''\<rparr>"

definition service_sum :: upload_service where
  "service_sum =
     \<lparr>storage = empty_storage\<lparr>uploads := [''u1'' \<mapsto> [(1, ''cd''), (0, ''ab'')]]\<rparr>,
      svc_chunk_size = 2,
      sessions = [''u1'' \<mapsto>
        session0\<lparr>checksum := Some ''from-client'', received_chunks := {|0, 1|}\<rparr>]\<rparr>"

section \<open>The JSON texts that json.loads accepts\<close>

text \<open>
  For closed examples the parameter \<open>loads\<close> is instantiated with \<open>json_loads\<close>, which follows
  \<^verbatim>\<open>json.loads\<close> of the Python standard library on the texts that stay within the limits of
  the interpreter (recursion depth, digits of an integer), as the short texts of the
  examples do. It returns a value for optional white space, one JSON value (objects,
  arrays, strings with the standard escapes and no raw control character, numbers, \<^verbatim>\<open>true\<close>,
  \<^verbatim>\<open>false\<close>, \<^verbatim>\<open>null\<close>, and the constants \<^verbatim>\<open>NaN\<close>, \<^verbatim>\<open>Infinity\<close>, \<^verbatim>\<open>-Infinity\<close> that Python also
  takes), optional white space, and nothing more; any other text is a \<^verbatim>\<open>JSONDecodeError\<close>.
  The recursion runs on fuel, twice the length of the text and two, which is enough for any
  text. \<open>cp\<close> is the code point of an ASCII character.
\<close>

definition cp :: "char \<Rightarrow> int" where
  "cp c = of_char c"

definition ascii_str :: "string \<Rightarrow> py_str" where
  "ascii_str s = map cp s"

definition json_ws :: "int \<Rightarrow> bool" where
  "json_ws c = (c = cp CHR '' '' \<or> c = cp (CHR 0x09) \<or> c = cp (CHR 0x0A) \<or> c = cp (CHR 0x0D))"

definition skip_ws :: "py_str \<Rightarrow> py_str" where
  "skip_ws s = dropWhile json_ws s"

definition is_digit :: "int \<Rightarrow> bool" where
  "is_digit n = (cp CHR ''0'' \<le> n \<and> n \<le> cp CHR ''9'')"

definition is_hex_digit :: "int \<Rightarrow> bool" where
  "is_hex_digit n =
     ((cp CHR ''0'' \<le> n \<and> n \<le> cp CHR ''9'') \<or> (cp CHR ''A'' \<le> n \<and> n \<le> cp CHR ''F'') \<or>
      (cp CHR ''a'' \<le> n \<and> n \<le> cp CHR ''f''))"

text \<open>The rest of the text after the string whose opening quote has been read.\<close>

fun scan_string :: "py_str \<Rightarrow> py_str option" where
  "scan_string [] = None"
| "scan_string [c] = (if c = cp (CHR 0x22) then Some [] else None)"
| "scan_string (c # e # cs) =
     (if c = cp (CHR 0x22) then Some (e # cs)
      else if c = cp (CHR 0x5C)
      then (if e = cp CHR ''u''
            then (case cs of
                    h1 # h2 # h3 # h4 # rest \<Rightarrow>
                      if is_hex_digit h1 \<and> is_hex_digit h2 \<and> is_hex_digit h3 \<and> is_hex_digit h4
                      then scan_string rest else None
                  | _ \<Rightarrow> None)
            else if e \<in> set (map cp [CHR 0x22, CHR 0x5C, CHR ''/'', CHR ''b'', CHR ''f'', CHR ''n'',
                                      CHR ''r'', CHR ''t''])
            then scan_string cs else None)
      else if c < 32 then None
      else scan_string (e # cs))"

definition match_frac :: "py_str \<Rightarrow> py_str" where
  "match_frac s =
     (case s of
        c # d # ds \<Rightarrow> if c = cp CHR ''.'' \<and> is_digit d then dropWhile is_digit ds else s
      | _ \<Rightarrow> s)"

definition match_exp :: "py_str \<Rightarrow> py_str" where
  "match_exp s =
     (case s of
        c # cs \<Rightarrow>
          if c = cp CHR ''e'' \<or> c = cp CHR ''E''
          then (case (case cs of
                        g # gs \<Rightarrow> if g = cp CHR ''-'' \<or> g = cp CHR ''+'' then gs else cs
                      | [] \<Rightarrow> cs) of
                  d # ds \<Rightarrow> if is_digit d then dropWhile is_digit ds else s
                | [] \<Rightarrow> s)
          else s
      | [] \<Rightarrow> s)"

text \<open>The rest of the text after the longest number at its start, if there is a number.\<close>

definition match_number :: "py_str \<Rightarrow> py_str option" where
  "match_number s =
     (case (case s of c # cs \<Rightarrow> if c = cp CHR ''-'' then cs else s | [] \<Rightarrow> s) of
        d # ds \<Rightarrow>
          if d = cp CHR ''0'' then Some (match_exp (match_frac ds))
          else if is_digit d then Some (match_exp (match_frac (dropWhile is_digit ds)))
          else None
      | [] \<Rightarrow> None)"

definition match_word :: "string \<Rightarrow> py_str \<Rightarrow> py_str option" where
  "match_word w s =
     (if take (length w) s = ascii_str w then Some (drop (length w) s) else None)"

fun json_value :: "nat \<Rightarrow> py_str \<Rightarrow> py_str option"
  and json_elements :: "nat \<Rightarrow> py_str \<Rightarrow> py_str option"
  and json_members :: "nat \<Rightarrow> py_str \<Rightarrow> py_str option" where
  "json_value 0 s = None"
| "json_value (Suc n) s =
     (case s of
        [] \<Rightarrow> None
      | c # cs \<Rightarrow>
          if c = cp (CHR 0x22) then scan_string cs
          else if c = cp CHR ''{''
          then (case skip_ws cs of
                  d # ds \<Rightarrow> if d = cp CHR ''}'' then Some ds else json_members n (d # ds)
                | [] \<Rightarrow> None)
          else if c = cp CHR ''[''
          then (case skip_ws cs of
                  d # ds \<Rightarrow> if d = cp CHR '']'' then Some ds else json_elements n (d # ds)
                | [] \<Rightarrow> None)
          else if c = cp CHR ''n'' then match_word ''null'' s
          else if c = cp CHR ''t'' then match_word ''true'' s
          else if c = cp CHR ''f'' then match_word ''false'' s
          else if c = cp CHR ''N'' then match_word ''NaN'' s
          else if c = cp CHR ''I'' then match_word ''Infinity'' s
          else if c = cp CHR ''-'' \<and> match_word ''-Infinity'' s \<noteq> None
          then match_word ''-Infinity'' s
          else match_number s)"
| "json_elements 0 s = None"
| "json_elements (Suc n) s =
     (case json_value n s of
        None \<Rightarrow> None
      | Some r \<Rightarrow>
          (case skip_ws r of
             d # ds \<Rightarrow>
               if d = cp CHR '']'' then Some ds
               else if d = cp CHR '','' then json_elements n (skip_ws ds)
               else None
           | [] \<Rightarrow> None))"
| "json_members 0 s = None"
| "json_members (Suc n) s =
     (case s of
        [] \<Rightarrow> None
      | q # ks \<Rightarrow>
          if q \<noteq> cp (CHR 0x22) then None
          else
            (case scan_string ks of
               None \<Rightarrow> None
             | Some r \<Rightarrow>
                 (case skip_ws r of
                    [] \<Rightarrow> None
                  | e # es \<Rightarrow>
                      if e \<noteq> cp CHR '':'' then None
                      else
                        (case json_value n (skip_ws es) of
                           None \<Rightarrow> None
                         | Some r2 \<Rightarrow>
                             (case skip_ws r2 of
                                [] \<Rightarrow> None
                              | d # ds \<Rightarrow>
                                  if d = cp CHR ''}'' then Some ds
                                  else if d = cp CHR '','' then json_members n (skip_ws ds)
                                  else None)))))"

definition json_loads :: "py_str \<Rightarrow> loads_result" where
  "json_loads s =
     (case json_value (2 * length s + 2) (skip_ws s) of
        None \<Rightarrow> Json_decode_error
      | Some r \<Rightarrow> if skip_ws r = [] then Loads_value else Json_decode_error)"

text \<open>
  Reading a file whose bytes are all ASCII raises nothing, and its text is its bytes as
  code points; the files of the examples are such files. In text mode the line ends
  \<^verbatim>\<open>\r\n\<close> and \<^verbatim>\<open>\r\<close> are read as \<^verbatim>\<open>\n\<close>, and a line keeps its \<^verbatim>\<open>\n\<close>.
\<close>

fun universal_newlines :: "py_str \<Rightarrow> py_str" where
  "universal_newlines [] = []"
| "universal_newlines [c] = (if c = cp (CHR 0x0D) then [cp (CHR 0x0A)] else [c])"
| "universal_newlines (c # d # cs) =
     (if c = cp (CHR 0x0D) \<and> d = cp (CHR 0x0A) then cp (CHR 0x0A) # universal_newlines cs
      else if c = cp (CHR 0x0D) then cp (CHR 0x0A) # universal_newlines (d # cs)
      else c # universal_newlines (d # cs))"

fun str_lines_from :: "py_str \<Rightarrow> py_str \<Rightarrow> py_str list" where
  "str_lines_from line [] = (if line = [] then [] else [line])"
| "str_lines_from line (c # cs) =
     (if c = cp (CHR 0x0A) then (line @ [c]) # str_lines_from [] cs
      else str_lines_from (line @ [c]) cs)"

definition text_lines :: "py_str \<Rightarrow> py_str list" where
  "text_lines s = str_lines_from [] (universal_newlines s)"

definition read_ascii_lines :: "bytes \<Rightarrow> read_event list" where
  "read_ascii_lines content = map Line (text_lines (ascii_str content))"

text \<open>A read that yields a line which \<^verbatim>\<open>json.loads\<close> takes after \<^verbatim>\<open>strip\<close>.\<close>

definition parses :: "(py_str \<Rightarrow> loads_result) \<Rightarrow> read_event \<Rightarrow> bool" where
  "parses loads e =
     (case e of Line line \<Rightarrow> loads (strip line) = Loads_value | Read_error \<Rightarrow> False)"

text \<open>
  The sentence of the specification about \<^verbatim>\<open>.jsonl\<close> files, in its own words: the first ten
  non-empty lines are parsed as JSON values (a line is empty when nothing is left of it
  after \<^verbatim>\<open>strip\<close>), and a failure among them is a reject with that line's number in the file.
  It is compared with \<open>check_jsonl\<close>, the loop of the source.
\<close>

definition spec_check_jsonl ::
  "(py_str \<Rightarrow> loads_result) \<Rightarrow> py_str list \<Rightarrow> bool \<times> validation_message option" where
  "spec_check_jsonl loads lines =
     (let numbered = zip [1..<Suc (length lines)] (map strip lines);
          non_empty = filter (\<lambda>(n, line). line \<noteq> []) numbered
      in case find (\<lambda>(n, line). loads line \<noteq> Loads_value) (take 10 non_empty) of
           None \<Rightarrow> (True, None)
         | Some (n, line) \<Rightarrow> (False, Some (Invalid_jsonl_at_line n)))"

text \<open>A file of three lines, the second one blank: \<^verbatim>\<open>[1, 2]\<close>, an empty line, \<^verbatim>\<open>{}\<close>.\<close>

definition blank_line_jsonl :: bytes where
  "blank_line_jsonl = ''[1, 2]'' @ [LF] @ [LF] @ ''{}'' @ [LF]"

definition session_jsonl :: upload_session where
  "session_jsonl = \<lparr>upload_id = ''u3'', filename = ''x.jsonl'', total_size = 11, total_chunks = 1,
     chunk_size = 1048576, checksum = None, created_at = ''t0'', received_chunks = {|0|}\<rparr>"

definition service_jsonl :: upload_service where
  "service_jsonl =
     \<lparr>storage = empty_storage\<lparr>uploads := [''u3'' \<mapsto> [(0, blank_line_jsonl)]]\<rparr>,
      svc_chunk_size = 1048576, sessions = [''u3'' \<mapsto> session_jsonl]\<rparr>"

definition app_jsonl :: app where
  "app_jsonl = \<lparr>service = service_jsonl, metadata_store = []\<rparr>"

definition service_jsonl_done :: upload_service where
  "service_jsonl_done =
     \<lparr>storage = empty_storage\<lparr>completed := [''x.jsonl'' \<mapsto> blank_line_jsonl]\<rparr>,
      svc_chunk_size = 1048576, sessions = Map.empty\<rparr>"

definition metadata_jsonl :: file_metadata where
  "metadata_jsonl =
     \<lparr>md_uploadId = ''u3'', md_filename = ''x.jsonl'', md_size = 11, md_checksum = None,
      md_timestamp = ''t1'', md_fileType = ''dataset'', md_filepath = ''completed/x.jsonl''\<rparr>"

text \<open>A client's chunk stream: the uploads in the order of arrival, each with its index, its
  bytes and what the operating system does during that call. The run stops at the first
  upload that fails; the flag tells whether every upload succeeded.\<close>

fun upload_all ::
  "upload_service \<Rightarrow> string \<Rightarrow> int \<Rightarrow> (int \<times> bytes \<times> (nat \<Rightarrow> io_event)) list
     \<Rightarrow> upload_service \<times> bool" where
  "upload_all svc uid claimed [] = (svc, True)"
| "upload_all svc uid claimed ((chunk_index, chunk_data, io) # rest) =
     (case upload_chunk io svc uid chunk_index chunk_data claimed of
        (svc1, ok, n_received, msg) \<Rightarrow>
          if ok then upload_all svc1 uid claimed rest else (svc1, False))"

text \<open>The bytes committed for an index after an acknowledged upload of \<open>d\<close>: the chunk that
  was already on disk when it has the length of \<open>d\<close> (the shortcut keeps it), and \<open>d\<close>
  otherwise.\<close>

definition committed_after :: "storage \<Rightarrow> string \<Rightarrow> int \<Rightarrow> bytes \<Rightarrow> bytes" where
  "committed_after fs uid i d =
     (case chunk_file fs (uid, i) of
        None \<Rightarrow> d
      | Some old \<Rightarrow> if length old = length d then old else d)"

definition service_full_b :: upload_service where
  "service_full_b =
     \<lparr>storage = empty_storage\<lparr>uploads := [''u1'' \<mapsto> [(0, ''ab''), (1, ''cd'')]]\<rparr>,
      svc_chunk_size = 2,
      sessions = [''u1'' \<mapsto> session0\<lparr>received_chunks := {|0, 1|}\<rparr>]\<rparr>"

text \<open>A session whose index 0 was acknowledged earlier with the bytes \<^verbatim>\<open>xy\<close>.\<close>

definition service_stale :: upload_service where
  "service_stale =
     \<lparr>storage = empty_storage\<lparr>uploads := [''u1'' \<mapsto> [(0, ''xy'')]]\<rparr>,
      svc_chunk_size = 2,
      sessions = [''u1'' \<mapsto> session0\<lparr>received_chunks := {|0|}\<rparr>]\<rparr>"

definition service_stale_full :: upload_service where
  "service_stale_full =
     \<lparr>storage = empty_storage\<lparr>uploads := [''u1'' \<mapsto> [(0, ''xy''), (1, ''cd'')]]\<rparr>,
      svc_chunk_size = 2,
      sessions = [''u1'' \<mapsto> session0\<lparr>received_chunks := {|0, 1|}\<rparr>]\<rparr>"

definition service_stale_done :: upload_service where
  "service_stale_done =
     \<lparr>storage = empty_storage\<lparr>completed := [''a.bin'' \<mapsto> ''xycd'']\<rparr>,
      svc_chunk_size = 2, sessions = Map.empty\<rparr>"

section \<open>Facts about the chunk store\<close>

lemma chunk_file_mkdir [simp]: "chunk_file (mkdir_upload fs uid) p = chunk_file fs p"
  by (auto simp: chunk_file_def mkdir_upload_def split: option.splits)

lemma mkdir_upload_idem [simp]: "mkdir_upload (mkdir_upload fs uid) uid = mkdir_upload fs uid"
  by (auto simp: mkdir_upload_def split: option.splits)

lemma completed_mkdir [simp]: "completed (mkdir_upload fs uid) = completed fs"
  by (auto simp: mkdir_upload_def split: option.splits)

lemma mkdir_upload_existing: "uploads fs uid = Some d \<Longrightarrow> mkdir_upload fs uid = fs"
  by (simp add: mkdir_upload_def)

lemma chunk_exists_eq:
  "chunk_exists fs uid i = (mkdir_upload fs uid, chunk_file fs (uid, i) \<noteq> None)"
  by (simp add: chunk_exists_def get_chunk_path_def)

lemma get_chunk_size_eq:
  "get_chunk_size fs uid i =
     (mkdir_upload fs uid, map_option (\<lambda>d. int (length d)) (chunk_file fs (uid, i)))"
  by (simp add: get_chunk_size_def get_chunk_path_def split: option.splits)

lemma get_chunk_eq:
  "get_chunk rd fs uid i = (mkdir_upload fs uid, if rd i then None else chunk_file fs (uid, i))"
  by (simp add: get_chunk_def get_chunk_path_def split: option.splits)

lemma list_chunks_fst [simp]: "fst (list_chunks fs uid) = fs"
  by (simp add: list_chunks_def split: option.splits)

section \<open>The queries of the chunk store and the upload directory\<close>

text \<open>
  C10. \<open>chunk_exists\<close>, \<open>get_chunk\<close> and \<open>get_chunk_size\<close> are not read-only: for an upload id
  whose directory does not exist (an id that was never initialised included) each of them
  leaves the store with that directory created, empty, and answers that there is no chunk.
  \<open>list_chunks\<close> returns the store as it was.
\<close>

theorem query_operations_make_directory:
  "(uploads fs uid = None \<longrightarrow>
      chunk_exists fs uid i = (fs\<lparr>uploads := (uploads fs)(uid \<mapsto> [])\<rparr>, False) \<and>
      get_chunk rd fs uid i = (fs\<lparr>uploads := (uploads fs)(uid \<mapsto> [])\<rparr>, None) \<and>
      get_chunk_size fs uid i = (fs\<lparr>uploads := (uploads fs)(uid \<mapsto> [])\<rparr>, None)) \<and>
   list_chunks fs uid = (fs, snd (list_chunks fs uid))"
  by (auto simp: chunk_exists_eq get_chunk_eq get_chunk_size_eq mkdir_upload_def chunk_file_def
      list_chunks_def split: option.splits)

theorem query_operations_make_directory_witness:
  "uploads empty_storage ''never-initialised'' = None \<and>
   uploads (fst (chunk_exists empty_storage ''never-initialised'' 0)) ''never-initialised'' = Some [] \<and>
   uploads (fst (get_chunk (\<lambda>i. False) empty_storage ''never-initialised'' 0))
     ''never-initialised'' = Some [] \<and>
   uploads (fst (get_chunk_size empty_storage ''never-initialised'' 0)) ''never-initialised'' = Some [] \<and>
   uploads (fst (list_chunks empty_storage ''never-initialised'')) ''never-initialised'' = None"
  using query_operations_make_directory [of empty_storage "''never-initialised''" 0 "\<lambda>i. False"]
  by (simp add: empty_storage_def)

section \<open>Failure returns of upload_chunk\<close>

lemma store_chunk_attempts:
  "store_chunk io fs uid i data = store_chunk_loop [0, 1, 2] io fs uid i data"
proof -
  have "[0..<max_retries] = [0, 1, 2]"
    by (simp add: max_retries_def upt_rec numeral_2_eq_2)
  then show ?thesis
    by (simp only: store_chunk_def)
qed

lemma store_chunk_result:
  "store_chunk io fs uid i data =
     (if snd (store_chunk io fs uid i data)
      then (write_chunk (mkdir_upload fs uid) uid i data, True)
      else (mkdir_upload fs uid, False))"
  by (simp add: store_chunk_attempts max_retries_def Let_def split: io_event.splits)

lemma store_chunk_down: "store_chunk io_down fs uid i data = (mkdir_upload fs uid, False)"
  by (simp add: store_chunk_attempts max_retries_def io_down_def)

lemma store_chunk_good:
  "store_chunk io_good fs uid i data = (write_chunk (mkdir_upload fs uid) uid i data, True)"
  by (simp add: store_chunk_attempts max_retries_def io_good_def)

lemma sessions_upload_chunk_store:
  "\<not> fst (snd (upload_chunk_store io svc uid s i data)) \<Longrightarrow>
     sessions (fst (upload_chunk_store io svc uid s i data)) = sessions svc"
  by (simp add: upload_chunk_store_def Let_def split: prod.splits if_splits)

lemma upload_chunk_store_failed:
  "\<not> snd (store_chunk io (storage svc) uid i data) \<Longrightarrow>
     snd (upload_chunk_store io svc uid s i data) = (False, len_received s, Failed_to_store_chunk)"
  by (cases "store_chunk io (storage svc) uid i data") (simp add: upload_chunk_store_def)

lemma upload_chunk_no_session:
  "sessions svc uid = None \<Longrightarrow>
     upload_chunk io svc uid i data claimed = (svc, False, 0, Session_not_found uid)"
  by (simp add: upload_chunk_def get_session_def get_or_create_session_from_storage_def
      list_chunks_def split: option.splits)

lemma upload_chunk_failed_sessions:
  "\<not> fst (snd (upload_chunk io svc uid i data claimed)) \<Longrightarrow>
     sessions (fst (upload_chunk io svc uid i data claimed)) = sessions svc"
proof (cases "sessions svc uid")
  case None
  then show ?thesis by (simp add: upload_chunk_no_session)
next
  case (Some s)
  assume failed: "\<not> fst (snd (upload_chunk io svc uid i data claimed))"
  from failed Some show ?thesis
    using sessions_upload_chunk_store
      [of io "svc\<lparr>storage := mkdir_upload (storage svc) uid\<rparr>" uid s i data]
    by (auto simp: upload_chunk_def get_session_def chunk_exists_eq get_chunk_size_eq Let_def
        split: if_splits)
qed

text \<open>
  C4. \<open>upload_chunk\<close> checks in this order: an unknown upload id gives the failure
  \<open>Session_not_found\<close>; then an index outside \<open>[0, total_chunks)\<close> gives
  \<open>Invalid_chunk_index\<close>, whatever the claimed total; then a claimed total other than the
  session's gives \<open>Total_chunks_mismatch\<close>; and when the checks pass, no committed chunk of
  the same size exists and \<open>store_chunk\<close> fails, the result is \<open>Failed_to_store_chunk\<close>.
  Whenever the result is a failure the registry, and so the session's set of received chunks,
  is what it was.
\<close>

theorem upload_chunk_failure_order:
  "(sessions svc uid = None \<longrightarrow>
      upload_chunk io svc uid i data claimed = (svc, False, 0, Session_not_found uid)) \<and>
   (\<forall>s. sessions svc uid = Some s \<and> (i < 0 \<or> total_chunks s \<le> i) \<longrightarrow>
      upload_chunk io svc uid i data claimed =
        (svc, False, len_received s, Invalid_chunk_index i)) \<and>
   (\<forall>s. sessions svc uid = Some s \<and> 0 \<le> i \<and> i < total_chunks s \<and> claimed \<noteq> total_chunks s \<longrightarrow>
      upload_chunk io svc uid i data claimed =
        (svc, False, len_received s, Total_chunks_mismatch (total_chunks s) claimed)) \<and>
   (\<forall>s. sessions svc uid = Some s \<and> 0 \<le> i \<and> i < total_chunks s \<and> claimed = total_chunks s \<and>
        map_option length (chunk_file (storage svc) (uid, i)) \<noteq> Some (length data) \<and>
        \<not> snd (store_chunk io (mkdir_upload (storage svc) uid) uid i data) \<longrightarrow>
      snd (upload_chunk io svc uid i data claimed) =
        (False, len_received s, Failed_to_store_chunk)) \<and>
   (\<not> fst (snd (upload_chunk io svc uid i data claimed)) \<longrightarrow>
      sessions (fst (upload_chunk io svc uid i data claimed)) = sessions svc)"
proof (intro conjI allI impI)
  assume "sessions svc uid = None"
  then show "upload_chunk io svc uid i data claimed = (svc, False, 0, Session_not_found uid)"
    by (rule upload_chunk_no_session)
next
  fix s assume "sessions svc uid = Some s \<and> (i < 0 \<or> total_chunks s \<le> i)"
  then show "upload_chunk io svc uid i data claimed =
      (svc, False, len_received s, Invalid_chunk_index i)"
    by (auto simp: upload_chunk_def get_session_def)
next
  fix s
  assume "sessions svc uid = Some s \<and> 0 \<le> i \<and> i < total_chunks s \<and> claimed \<noteq> total_chunks s"
  then show "upload_chunk io svc uid i data claimed =
      (svc, False, len_received s, Total_chunks_mismatch (total_chunks s) claimed)"
    by (auto simp: upload_chunk_def get_session_def)
next
  fix s
  assume a: "sessions svc uid = Some s \<and> 0 \<le> i \<and> i < total_chunks s \<and> claimed = total_chunks s \<and>
        map_option length (chunk_file (storage svc) (uid, i)) \<noteq> Some (length data) \<and>
        \<not> snd (store_chunk io (mkdir_upload (storage svc) uid) uid i data)"
  then have "snd (upload_chunk_store io (svc\<lparr>storage := mkdir_upload (storage svc) uid\<rparr>) uid s i data)
      = (False, len_received s, Failed_to_store_chunk)"
    by (simp add: upload_chunk_store_failed)
  with a show "snd (upload_chunk io svc uid i data claimed) =
      (False, len_received s, Failed_to_store_chunk)"
    by (auto simp: upload_chunk_def get_session_def chunk_exists_eq get_chunk_size_eq Let_def
        split: option.splits)
next
  assume "\<not> fst (snd (upload_chunk io svc uid i data claimed))"
  then show "sessions (fst (upload_chunk io svc uid i data claimed)) = sessions svc"
    by (rule upload_chunk_failed_sessions)
qed


theorem upload_chunk_failure_order_witness:
  "upload_chunk io_good service0 ''nobody'' 0 ''ab'' 2 =
     (service0, False, 0, Session_not_found ''nobody'') \<and>
   upload_chunk io_good service0 ''u1'' 5 ''ab'' 7 = (service0, False, 0, Invalid_chunk_index 5) \<and>
   upload_chunk io_good service0 ''u1'' 1 ''ab'' 7 =
     (service0, False, 0, Total_chunks_mismatch 2 7) \<and>
   snd (upload_chunk io_down service0 ''u1'' 1 ''ab'' 2) = (False, 0, Failed_to_store_chunk) \<and>
   sessions (fst (upload_chunk io_down service0 ''u1'' 1 ''ab'' 2)) = sessions service0"
proof -
  have s: "sessions service0 ''u1'' = Some session0" "sessions service0 ''nobody'' = None"
    by (simp_all add: service0_def)
  have t: "total_chunks session0 = 2" "len_received session0 = 0"
    by (simp_all add: session0_def len_received_def)
  have c: "chunk_file (storage service0) (''u1'', 1) = None"
    by (simp add: service0_def empty_storage_def chunk_file_def)
  have d: "\<not> snd (store_chunk io_down (mkdir_upload (storage service0) ''u1'') ''u1'' 1 ''ab'')"
    by (simp add: store_chunk_down)
  have f: "\<not> fst (snd (upload_chunk io_down service0 ''u1'' 1 ''ab'' 2))"
    using upload_chunk_failure_order
      [where svc = service0 and uid = "''u1''" and i = 1 and claimed = 2 and data = "''ab''"
         and io = io_down] s t c d by simp
  show ?thesis
    using upload_chunk_failure_order
        [where svc = service0 and uid = "''nobody''" and i = 0 and claimed = 2
           and data = "''ab''" and io = io_good]
      upload_chunk_failure_order
        [where svc = service0 and uid = "''u1''" and i = 5 and claimed = 7 and data = "''ab''"
           and io = io_good]
      upload_chunk_failure_order
        [where svc = service0 and uid = "''u1''" and i = 1 and claimed = 7 and data = "''ab''"
           and io = io_good]
      upload_chunk_failure_order
        [where svc = service0 and uid = "''u1''" and i = 1 and claimed = 2 and data = "''ab''"
           and io = io_down]
      s t c d f
    by simp
qed

section \<open>The status endpoint\<close>

lemma get_upload_status_session:
  "sessions svc uid = Some s \<Longrightarrow>
     get_upload_status svc uid =
       (svc, Some \<lparr>sd_upload_id = uid, sd_total_chunks = Some (total_chunks s),
                   sd_received_chunks = sorted_list_of_fset (received_chunks s),
                   sd_is_complete = is_complete s\<rparr>)"
  by (simp add: get_upload_status_def get_session_def)

lemma get_upload_status_no_session:
  "sessions svc uid = None \<Longrightarrow>
     get_upload_status svc uid =
       (svc, if snd (list_chunks (storage svc) uid) = [] then None
             else Some \<lparr>sd_upload_id = uid, sd_total_chunks = None,
                         sd_received_chunks = sort (snd (list_chunks (storage svc) uid)),
                         sd_is_complete = False\<rparr>)"
  by (cases "list_chunks (storage svc) uid")
    (use list_chunks_fst [of "storage svc" uid] in
      \<open>auto simp: get_upload_status_def get_session_def\<close>)

text \<open>
  C7. The status endpoint: for a session in the registry it answers with the session's
  total, its received indices in ascending order, and \<open>isComplete\<close> true exactly when the
  number of received indices is the total. Without a session but with chunk files on disk it
  answers with the sorted \<open>list_chunks\<close>, the total inferred as the largest index plus one, and
  \<open>isComplete\<close> true exactly when the number of listed chunks is that total. With neither it
  raises status 404. The application is left as it was in each case.
\<close>

theorem http_status_cases:
  "(\<forall>s. sessions (service a) uid = Some s \<longrightarrow>
      http_get_upload_status a uid =
        (a, Inr \<lparr>sr_uploadId = uid, sr_totalChunks = total_chunks s,
                 sr_receivedChunks = sorted_list_of_fset (received_chunks s),
                 sr_isComplete = (int (fcard (received_chunks s)) = total_chunks s)\<rparr>)) \<and>
   (sessions (service a) uid = None \<and> snd (list_chunks (storage (service a)) uid) \<noteq> [] \<longrightarrow>
      http_get_upload_status a uid =
        (a, Inr \<lparr>sr_uploadId = uid,
                 sr_totalChunks = Max (set (snd (list_chunks (storage (service a)) uid))) + 1,
                 sr_receivedChunks = sort (snd (list_chunks (storage (service a)) uid)),
                 sr_isComplete =
                   (int (length (snd (list_chunks (storage (service a)) uid))) =
                    Max (set (snd (list_chunks (storage (service a)) uid))) + 1)\<rparr>)) \<and>
   (sessions (service a) uid = None \<and> snd (list_chunks (storage (service a)) uid) = [] \<longrightarrow>
      http_get_upload_status a uid =
        (a, Inl \<lparr>status_code = 404, detail = Detail_session_not_found uid\<rparr>))"
proof -
  have nonempty: "sort xs \<noteq> [] \<longleftrightarrow> xs \<noteq> []" for xs :: "int list"
    using length_sort [of "\<lambda>x. x" xs] by (metis length_0_conv)
  show ?thesis
    by (auto simp: http_get_upload_status_def get_upload_status_session
        get_upload_status_no_session is_complete_def Let_def nonempty)
qed


theorem http_status_cases_witness:
  "http_get_upload_status app0 ''u1'' =
     (app0, Inr \<lparr>sr_uploadId = ''u1'', sr_totalChunks = 2, sr_receivedChunks = [],
                  sr_isComplete = False\<rparr>) \<and>
   http_get_upload_status restarted_app ''u2'' =
     (restarted_app, Inr \<lparr>sr_uploadId = ''u2'', sr_totalChunks = 3, sr_receivedChunks = [0, 2],
                           sr_isComplete = False\<rparr>) \<and>
   http_get_upload_status restarted_app ''u1'' =
     (restarted_app, Inl \<lparr>status_code = 404, detail = Detail_session_not_found ''u1''\<rparr>)"
proof -
  have s: "sessions (service app0) ''u1'' = Some session0"
    "sessions (service restarted_app) ''u2'' = None"
    "sessions (service restarted_app) ''u1'' = None"
    by (simp_all add: app0_def service0_def restarted_app_def restarted_service_def)
  have r: "sorted_list_of_fset (received_chunks session0) = []"
    "fcard (received_chunks session0) = 0" "total_chunks session0 = 2"
    by (simp_all add: session0_def sorted_list_of_fset.rep_eq)
  have l: "snd (list_chunks (storage (service restarted_app)) ''u2'') = [0, 2]"
    "snd (list_chunks (storage (service restarted_app)) ''u1'') = []"
    by (simp_all add: restarted_app_def restarted_service_def empty_storage_def list_chunks_def)
  show ?thesis
    using http_status_cases [of app0 "''u1''"] http_status_cases [of restarted_app "''u2''"]
      http_status_cases [of restarted_app "''u1''"] s r l
    by simp
qed

section \<open>Idempotence of upload_chunk\<close>

lemma chunk_file_write_chunk:
  "chunk_file (write_chunk fs uid i data) p = (if p = (uid, i) then Some data else chunk_file fs p)"
  by (cases p) (auto simp: chunk_file_def write_chunk_def update_conv' split: option.splits)

lemma chunk_file_dir: "chunk_file fs (uid, i) = Some c \<Longrightarrow> mkdir_upload fs uid = fs"
  by (auto simp: chunk_file_def mkdir_upload_def split: option.splits)

lemma upload_chunk_shortcut:
  assumes "sessions svc uid = Some s" and "0 \<le> i" and "i < total_chunks s"
    and "claimed = total_chunks s" and "chunk_file (storage svc) (uid, i) = Some old"
    and "length old = length data"
  shows "upload_chunk io svc uid i data claimed =
     (svc\<lparr>sessions := (sessions svc)(uid \<mapsto> add_received s i)\<rparr>,
      True, len_received (add_received s i), Chunk_already_uploaded)"
proof -
  have dir: "mkdir_upload (storage svc) uid = storage svc"
    using assms(5) by (rule chunk_file_dir)
  have absorb: "i |\<in>| received_chunks s \<Longrightarrow> add_received s i = s"
    by (simp add: add_received_def finsert_absorb)
  show ?thesis
    using assms dir absorb
    by (auto simp: upload_chunk_def get_session_def chunk_exists_eq get_chunk_size_eq Let_def)
qed

lemma upload_chunk_store_success:
  assumes "fst (snd (upload_chunk_store io svc uid s i data))"
  shows "sessions (fst (upload_chunk_store io svc uid s i data)) uid = Some (add_received s i) \<and>
     chunk_file (storage (fst (upload_chunk_store io svc uid s i data))) (uid, i) = Some data"
proof -
  have ok: "snd (store_chunk io (storage svc) uid i data)"
    using assms
    by (cases "store_chunk io (storage svc) uid i data")
      (auto simp: upload_chunk_store_def Let_def split: if_splits)
  then have "store_chunk io (storage svc) uid i data =
      (write_chunk (mkdir_upload (storage svc) uid) uid i data, True)"
    using store_chunk_result [of io "storage svc" uid i data] by simp
  then show ?thesis
    by (simp add: upload_chunk_store_def Let_def chunk_file_write_chunk)
qed

lemma upload_chunk_success_post:
  assumes "fst (snd (upload_chunk io svc uid i data claimed))"
  shows "\<exists>s c. sessions (fst (upload_chunk io svc uid i data claimed)) uid = Some s \<and>
     0 \<le> i \<and> i < total_chunks s \<and> claimed = total_chunks s \<and> i |\<in>| received_chunks s \<and>
     chunk_file (storage (fst (upload_chunk io svc uid i data claimed))) (uid, i) = Some c \<and>
     length c = length data"
proof (cases "sessions svc uid")
  case None
  with assms show ?thesis by (simp add: upload_chunk_no_session)
next
  case (Some s)
  show ?thesis
  proof (cases "i < 0 \<or> total_chunks s \<le> i \<or> claimed \<noteq> total_chunks s")
    case True
    with Some have "\<not> fst (snd (upload_chunk io svc uid i data claimed))"
      by (auto simp: upload_chunk_def get_session_def)
    with assms show ?thesis by simp
  next
    case valid: False
    show ?thesis
    proof (cases "map_option length (chunk_file (storage svc) (uid, i)) = Some (length data)")
      case True
      then obtain old where old: "chunk_file (storage svc) (uid, i) = Some old"
        "length old = length data" by auto
      from upload_chunk_shortcut [OF Some _ _ _ old, of claimed io] valid
      have "upload_chunk io svc uid i data claimed =
          (svc\<lparr>sessions := (sessions svc)(uid \<mapsto> add_received s i)\<rparr>,
           True, len_received (add_received s i), Chunk_already_uploaded)"
        by simp
      with old valid show ?thesis
        by (simp add: add_received_def)
    next
      case False
      let ?svc1 = "svc\<lparr>storage := mkdir_upload (storage svc) uid\<rparr>"
      from False Some valid
      have eq: "upload_chunk io svc uid i data claimed = upload_chunk_store io ?svc1 uid s i data"
        by (auto simp: upload_chunk_def get_session_def chunk_exists_eq get_chunk_size_eq Let_def
            split: option.splits)
      with assms have "fst (snd (upload_chunk_store io ?svc1 uid s i data))" by simp
      from upload_chunk_store_success [OF this] eq valid show ?thesis
        by (simp add: add_received_def)
    qed
  qed
qed

lemma upload_chunk_again:
  assumes "sessions svc uid = Some s" and "0 \<le> i" and "i < total_chunks s"
    and "claimed = total_chunks s" and "i |\<in>| received_chunks s"
    and "chunk_file (storage svc) (uid, i) = Some c" and "length c = length data"
  shows "upload_chunk io svc uid i data claimed =
     (svc, True, len_received s, Chunk_already_uploaded)"
proof -
  have "add_received s i = s"
    using assms(5) by (simp add: add_received_def finsert_absorb)
  moreover have "(sessions svc)(uid \<mapsto> s) = sessions svc"
    using assms(1) by (rule map_upd_triv)
  ultimately show ?thesis
    using upload_chunk_shortcut [OF assms(1-4) assms(6,7), of io] by simp
qed

lemma upload_chunk_times_stable:
  assumes "sessions svc uid = Some s" and "0 \<le> i" and "i < total_chunks s"
    and "claimed = total_chunks s" and "i |\<in>| received_chunks s"
    and "chunk_file (storage svc) (uid, i) = Some c" and "length c = length data"
  shows "upload_chunk_times n ios svc uid i data claimed = svc"
proof (induction n arbitrary: ios)
  case 0
  show ?case by simp
next
  case (Suc n)
  show ?case
    by (simp add: upload_chunk_again [OF assms] Suc.IH)
qed

text \<open>
  C3. Once a call of \<open>upload_chunk\<close> has returned success, calling it again with the same
  arguments any number of times, whatever the operating system does then, leaves the whole
  service (the received sets and every committed chunk) as it was after that first call.
  And when the checks pass and a committed chunk of the same length as the data exists, the
  call returns success with \<open>Chunk_already_uploaded\<close>, the index is in the received set
  afterwards, and the store is not touched.
\<close>

theorem upload_chunk_idempotent:
  "(fst (snd (upload_chunk io svc uid i data claimed)) \<longrightarrow>
      upload_chunk_times n ios (fst (upload_chunk io svc uid i data claimed)) uid i data claimed =
        fst (upload_chunk io svc uid i data claimed)) \<and>
   (\<forall>s old. sessions svc uid = Some s \<and> 0 \<le> i \<and> i < total_chunks s \<and> claimed = total_chunks s \<and>
        chunk_file (storage svc) (uid, i) = Some old \<and> length old = length data \<longrightarrow>
      upload_chunk io svc uid i data claimed =
        (svc\<lparr>sessions := (sessions svc)(uid \<mapsto>
                 s\<lparr>received_chunks := finsert i (received_chunks s)\<rparr>)\<rparr>,
         True, int (fcard (finsert i (received_chunks s))), Chunk_already_uploaded))"
proof (intro conjI impI allI)
  assume "fst (snd (upload_chunk io svc uid i data claimed))"
  from upload_chunk_success_post [OF this] obtain s c where
    "sessions (fst (upload_chunk io svc uid i data claimed)) uid = Some s"
    "0 \<le> i" "i < total_chunks s" "claimed = total_chunks s" "i |\<in>| received_chunks s"
    "chunk_file (storage (fst (upload_chunk io svc uid i data claimed))) (uid, i) = Some c"
    "length c = length data"
    by blast
  then show "upload_chunk_times n ios (fst (upload_chunk io svc uid i data claimed)) uid i data
      claimed = fst (upload_chunk io svc uid i data claimed)"
    by (rule upload_chunk_times_stable)
next
  fix s old
  assume "sessions svc uid = Some s \<and> 0 \<le> i \<and> i < total_chunks s \<and> claimed = total_chunks s \<and>
        chunk_file (storage svc) (uid, i) = Some old \<and> length old = length data"
  then show "upload_chunk io svc uid i data claimed =
        (svc\<lparr>sessions := (sessions svc)(uid \<mapsto>
                 s\<lparr>received_chunks := finsert i (received_chunks s)\<rparr>)\<rparr>,
         True, int (fcard (finsert i (received_chunks s))), Chunk_already_uploaded)"
    using upload_chunk_shortcut [of svc uid s i claimed old data io]
    by (simp add: add_received_def len_received_def)
qed


lemma fcard_single [simp]: "fcard {|x|} = 1"
  by (simp add: fcard.rep_eq)

lemma service0_upload_first:
  "upload_chunk io_good service0 ''u1'' 0 ''ab'' 2 =
     (service1, True, 1, Chunk_uploaded_successfully)"
  by (simp add: upload_chunk_def get_session_def service0_def session0_def chunk_exists_eq
      chunk_file_def empty_storage_def upload_chunk_store_def store_chunk_good write_chunk_def
      mkdir_upload_def add_received_def len_received_def service1_def)

theorem upload_chunk_idempotent_witness:
  "fst (snd (upload_chunk io_good service0 ''u1'' 0 ''ab'' 2)) \<and>
   upload_chunk_times 3 (\<lambda>k. io_down) (fst (upload_chunk io_good service0 ''u1'' 0 ''ab'' 2))
     ''u1'' 0 ''ab'' 2 = service1 \<and>
   upload_chunk io_down service1 ''u1'' 0 ''xy'' 2 = (service1, True, 1, Chunk_already_uploaded)"
proof -
  have s: "sessions service1 ''u1'' = Some (session0\<lparr>received_chunks := {|0|}\<rparr>)"
    "chunk_file (storage service1) (''u1'', 0) = Some ''ab''"
    by (simp_all add: service1_def chunk_file_def empty_storage_def)
  have e: "service1\<lparr>sessions := (sessions service1)(''u1'' \<mapsto>
      session0\<lparr>received_chunks := {|0|}\<rparr>)\<rparr> = service1"
    by (simp add: service1_def)
  show ?thesis
    using upload_chunk_idempotent
        [where io = io_good and svc = service0 and uid = "''u1''" and i = 0 and data = "''ab''"
           and claimed = 2 and n = 3 and ios = "\<lambda>k. io_down"]
      upload_chunk_idempotent
        [where io = io_down and svc = service1 and uid = "''u1''" and i = 0 and data = "''xy''"
           and claimed = 2]
      s e
    by (simp add: service0_upload_first session0_def)
qed

section \<open>Reassembly\<close>

lemma list_chunks_set: "set (snd (list_chunks fs uid)) = {i. chunk_file fs (uid, i) \<noteq> None}"
proof (cases "uploads fs uid")
  case None
  then show ?thesis by (simp add: list_chunks_def chunk_file_def)
next
  case (Some d)
  have "fst ` set d = {i. map_of d i \<noteq> None}"
    using map_of_eq_None_iff [of d] by auto
  with Some show ?thesis by (simp add: list_chunks_def chunk_file_def)
qed


lemma chunk_file_write_out [simp]: "chunk_file (write_out fs name data) p = chunk_file fs p"
  by (simp add: chunk_file_def write_out_def split: option.splits)

lemma uploads_write_out [simp]: "uploads (write_out fs name data) = uploads fs"
  by (simp add: write_out_def split: option.splits)


lemma completed_write_out:
  "completed (write_out fs name data) =
     (completed fs)(name \<mapsto> (case completed fs name of None \<Rightarrow> data | Some old \<Rightarrow> old @ data))"
  by (simp add: write_out_def split: option.splits)



lemma reassemble_loop_content:
  assumes "reassemble_loop rd fs uid name idxs = (fs1, True)" and "completed fs name = Some c0"
  shows "completed fs1 name = Some (c0 @ concat (map (\<lambda>i. the (chunk_file fs (uid, i))) idxs)) \<and>
     (\<forall>i \<in> set idxs. chunk_file fs (uid, i) \<noteq> None \<and> \<not> rd i)"
  using assms
proof (induction idxs arbitrary: fs c0)
  case Nil
  then show ?case by simp
next
  case (Cons i rest)
  from Cons.prems(1) obtain data where data: "chunk_file fs (uid, i) = Some data" "\<not> rd i"
    and rest: "reassemble_loop rd (write_out (mkdir_upload fs uid) name data) uid name rest
      = (fs1, True)"
    by (auto simp: get_chunk_eq split: option.splits if_splits)
  have "completed (write_out (mkdir_upload fs uid) name data) name = Some (c0 @ data)"
    using Cons.prems(2) by (simp add: completed_write_out)
  from Cons.IH [OF rest this] data show ?case
    by simp
qed


lemma reassemble_failed_facts [simp]:
  "snd (reassemble_failed fs name) = None"
  "uploads (fst (reassemble_failed fs name)) = uploads fs"
  "completed (fst (reassemble_failed fs name)) = (completed fs)(name := None)"
  by (auto simp: reassemble_failed_def unlink_def)

lemma reassemble_failed_not_Some [simp]: "reassemble_failed fs name \<noteq> (fs1, Some path)"
  by (simp add: reassemble_failed_def)

lemma reassemble_file_unfold:
  "reassemble_file rd fs uid n name expected =
     (if set [0..n - 1] \<noteq> set (snd (list_chunks fs uid)) then reassemble_failed fs name
      else
        (case reassemble_loop rd (open_wb fs name) uid name [0..n - 1] of
           (fs1, False) \<Rightarrow> reassemble_failed fs1 name
         | (fs1, True) \<Rightarrow>
             (case expected of
                None \<Rightarrow> (fs1, Some name)
              | Some e \<Rightarrow>
                  (case completed fs1 name of
                     None \<Rightarrow> reassemble_failed fs1 name
                   | Some written \<Rightarrow>
                       if int (length written) \<noteq> e
                       then reassemble_failed (unlink fs1 name) name
                       else (fs1, Some name)))))"
  by (cases "list_chunks fs uid") (use list_chunks_fst [of fs uid] in \<open>simp add: reassemble_file_def\<close>)





lemma reassemble_file_success:
  assumes "reassemble_file rd fs uid n name (Some expected) = (fs1, Some path)"
  shows "path = name \<and>
     completed fs1 name = Some (concat (map (\<lambda>i. the (chunk_file fs (uid, i))) [0..n - 1])) \<and>
     int (length (concat (map (\<lambda>i. the (chunk_file fs (uid, i))) [0..n - 1]))) = expected \<and>
     (\<forall>i \<in> set [0..n - 1]. chunk_file fs (uid, i) \<noteq> None)"
proof -
  have eq: "set [0..n - 1] = set (snd (list_chunks fs uid))"
  proof (rule ccontr)
    assume "set [0..n - 1] \<noteq> set (snd (list_chunks fs uid))"
    with assms show False
      by (simp add: reassemble_file_unfold)
  qed
  obtain fs2 ok where loop: "reassemble_loop rd (open_wb fs name) uid name [0..n - 1] = (fs2, ok)"
    by (cases "reassemble_loop rd (open_wb fs name) uid name [0..n - 1]")
  with assms eq have ok: ok
    by (cases ok) (auto simp: reassemble_file_unfold)
  have "completed (open_wb fs name) name = Some []"
    by (simp add: open_wb_def)
  from reassemble_loop_content [OF loop [unfolded eqTrueI [OF ok]] this]
  have content: "completed fs2 name =
      Some (concat (map (\<lambda>i. the (chunk_file (open_wb fs name) (uid, i))) [0..n - 1]))"
    and all: "\<forall>i \<in> set [0..n - 1]. chunk_file (open_wb fs name) (uid, i) \<noteq> None"
    by auto
  have same: "chunk_file (open_wb fs name) p = chunk_file fs p" for p
    by (simp add: chunk_file_def open_wb_def)
  from assms eq loop ok content show ?thesis
    using all by (auto simp: reassemble_file_unfold same split: if_splits)
qed

section \<open>complete_upload when reassembly fails\<close>

lemma complete_upload_reassembly:
  assumes "sessions svc uid = Some s" and "is_complete s"
  shows "complete_upload hexdigest rd rm now svc uid =
     (case reassemble_file rd (storage svc) uid (total_chunks s) (filename s)
             (Some (total_size s)) of
        (fs1, None) \<Rightarrow> (svc\<lparr>storage := fs1\<rparr>, Inr None)
      | (fs1, Some path) \<Rightarrow>
          (case (if truthy (checksum s)
                 then map_sum id Some (get_file_checksum hexdigest fs1 path) else Inr None) of
             Inl err \<Rightarrow> (svc\<lparr>storage := fs1\<rparr>, Inl err)
           | Inr file_checksum \<Rightarrow>
               (svc\<lparr>storage := fst (cleanup_chunks rm fs1 uid),
                     sessions := (sessions svc)(uid := None)\<rparr>,
                Inr (Some (path,
                  \<lparr>md_uploadId = uid, md_filename = filename s, md_size = total_size s,
                   md_checksum = file_checksum, md_timestamp = now,
                   md_fileType = detect_file_type (filename s),
                   md_filepath = str_path fs1 path\<rparr>)))))"
proof -
  obtain fs1 out where r:
    "reassemble_file rd (storage svc) uid (total_chunks s) (filename s) (Some (total_size s)) =
       (fs1, out)"
    by (cases "reassemble_file rd (storage svc) uid (total_chunks s) (filename s)
        (Some (total_size s))")
  show ?thesis
  proof (cases out)
    case None
    with assms r show ?thesis
      by (simp add: complete_upload_def get_session_def)
  next
    case (Some path)
    obtain fs2 cleaned where c: "cleanup_chunks rm fs1 uid = (fs2, cleaned)"
      by (cases "cleanup_chunks rm fs1 uid")
    show ?thesis
    proof (cases "if truthy (checksum s)
        then map_sum id Some (get_file_checksum hexdigest fs1 path) else Inr None")
      case (Inl err)
      with assms r Some show ?thesis
        by (simp add: complete_upload_def get_session_def)
    next
      case (Inr file_checksum)
      with assms r Some c show ?thesis
        by (simp add: complete_upload_def get_session_def Let_def)
    qed
  qed
qed



lemma upto_0_1: "[0..(1::int)] = [0, 1]"
  by (simp add: upto.simps)

lemma atLeastAtMost_0_1: "{0..(1::int)} = {0, 1}"
  by auto

lemma fcard_pair_0_1: "fcard {|0::int, 1|} = 2"
  by (simp add: fcard.rep_eq)



section \<open>complete_upload when it succeeds\<close>

lemma complete_upload_success_cases:
  assumes "complete_upload hexdigest rd rm now svc uid = (svc1, Inr (Some (path, md)))"
  shows "\<exists>s fs1 file_checksum.
     sessions svc uid = Some s \<and> is_complete s \<and>
     reassemble_file rd (storage svc) uid (total_chunks s) (filename s) (Some (total_size s))
       = (fs1, Some path) \<and>
     (if truthy (checksum s) then map_sum id Some (get_file_checksum hexdigest fs1 path)
      else Inr None) = Inr file_checksum \<and>
     svc1 = svc\<lparr>storage := fst (cleanup_chunks rm fs1 uid),
                sessions := (sessions svc)(uid := None)\<rparr> \<and>
     md = \<lparr>md_uploadId = uid, md_filename = filename s, md_size = total_size s,
           md_checksum = file_checksum, md_timestamp = now,
           md_fileType = detect_file_type (filename s), md_filepath = str_path fs1 path\<rparr>"
proof (cases "sessions svc uid")
  case None
  with assms show ?thesis
    by (simp add: complete_upload_def get_session_def)
next
  case (Some s)
  show ?thesis
  proof (cases "is_complete s")
    case False
    with assms Some show ?thesis
      by (simp add: complete_upload_def get_session_def)
  next
    case True
    obtain fs1 out where r:
      "reassemble_file rd (storage svc) uid (total_chunks s) (filename s) (Some (total_size s))
         = (fs1, out)"
      by (cases "reassemble_file rd (storage svc) uid (total_chunks s) (filename s)
          (Some (total_size s))")
    note c = complete_upload_reassembly [OF Some True, of hexdigest rd rm now]
    show ?thesis
    proof (cases out)
      case None
      with assms c r show ?thesis by simp
    next
      case out: (Some p)
      show ?thesis
      proof (cases "truthy (checksum s)")
        case False
        with assms c r out Some True show ?thesis by auto
      next
        case truthy: True
        show ?thesis
        proof (cases "get_file_checksum hexdigest fs1 p")
          case (Inl err)
          with assms c r out truthy show ?thesis by simp
        next
          case (Inr h)
          with assms c r out Some True truthy show ?thesis by auto
        qed
      qed
    qed
  qed
qed

lemma cleanup_chunks_facts [simp]:
  "uploads (fst (cleanup_chunks rm fs uid)) uid = (if rm then uploads fs uid else None)"
  "completed (fst (cleanup_chunks rm fs uid)) = completed fs"
  by (auto simp: cleanup_chunks_def)



lemma detect_file_type_a_bin: "detect_file_type ''a.bin'' = ''unknown''"
  by (simp add: detect_file_type_def after_last_dot_def str_lower_def char_lower_def
      dataset_extensions_def model_extensions_def archive_extensions_def)

lemma service_full_reassembly:
  "reassemble_file read_all (storage service_full) ''u1'' 2 ''a.bin'' (Some 4) =
     ((storage service_full)\<lparr>completed := [''a.bin'' \<mapsto> ''abcd'']\<rparr>, Some ''a.bin'')"
  by (simp add: reassemble_file_unfold list_chunks_def service_full_def empty_storage_def
      upto_0_1 atLeastAtMost_0_1 get_chunk_eq chunk_file_def mkdir_upload_def open_wb_def
      write_out_def read_all_def insert_commute)

lemma service_full_complete_any:
  "complete_upload example_hexdigest read_all rm ''t1'' service_full ''u1'' =
     (service_full\<lparr>storage := fst (cleanup_chunks rm
          ((storage service_full)\<lparr>completed := [''a.bin'' \<mapsto> ''abcd'']\<rparr>) ''u1''),
        sessions := (sessions service_full)(''u1'' := None)\<rparr>,
      Inr (Some (''a.bin'', metadata0)))"
proof -
  have s: "sessions service_full ''u1'' = Some (session0\<lparr>received_chunks := {|0, 1|}\<rparr>)"
    by (simp add: service_full_def)
  have c: "is_complete (session0\<lparr>received_chunks := {|0, 1|}\<rparr>)"
    by (simp add: is_complete_def session0_def fcard_pair_0_1)
  have f: "total_chunks (session0\<lparr>received_chunks := {|0, 1|}\<rparr>) = 2"
    "filename (session0\<lparr>received_chunks := {|0, 1|}\<rparr>) = ''a.bin''"
    "total_size (session0\<lparr>received_chunks := {|0, 1|}\<rparr>) = 4"
    "checksum (session0\<lparr>received_chunks := {|0, 1|}\<rparr>) = None"
    by (simp_all add: session0_def)
  have p: "str_path ((storage service_full)\<lparr>completed := [''a.bin'' \<mapsto> ''abcd'']\<rparr>) ''a.bin'' =
      ''completed/a.bin''"
    by (simp add: str_path_def service_full_def empty_storage_def)
  show ?thesis
    by (simp add: complete_upload_reassembly [OF s c] f service_full_reassembly truthy_def
        detect_file_type_a_bin p metadata0_def)
qed

lemma service_full_complete:
  "complete_upload example_hexdigest read_all False ''t1'' service_full ''u1'' =
     (service_done, Inr (Some (''a.bin'', metadata0)))"
  by (simp add: service_full_complete_any)
    (simp add: cleanup_chunks_def service_full_def service_done_def empty_storage_def)





section \<open>The checksum of the metadata\<close>

lemma concat_read_blocks: "0 < n \<Longrightarrow> concat (read_blocks n bs) = bs"
proof (induction n bs rule: read_blocks.induct)
  case (1 n bs)
  show ?case
  proof (cases "bs = []")
    case True
    then show ?thesis by (subst read_blocks.simps) simp
  next
    case False
    with "1.prems" have "concat (read_blocks n (drop n bs)) = drop n bs"
      using "1.IH" by simp
    with False "1.prems" show ?thesis
      by (subst read_blocks.simps) simp
  qed
qed

lemma foldl_append_concat: "foldl (@) a xs = a @ concat xs"
  by (induction xs arbitrary: a) simp_all

lemma get_file_checksum_content:
  "completed fs p = Some content \<Longrightarrow> get_file_checksum hexdigest fs p = Inr (hexdigest content)"
  by (simp add: get_file_checksum_def foldl_append_concat concat_read_blocks)

text \<open>
  C8. In the metadata of a successful \<open>complete_upload\<close> the checksum is present exactly
  when the session's checksum field is neither \<^verbatim>\<open>None\<close> nor empty, and then it is the digest
  computed from the bytes of the reassembled file: the client's value is not part of the
  result and is compared with nothing. The digest is the library's \<^verbatim>\<open>hexdigest\<close> (a parameter):
  when that returns 64 lowercase hexadecimal digits, as SHA-256 does, so is the checksum.
\<close>

theorem complete_upload_checksum:
  assumes "complete_upload hexdigest rd rm now svc uid = (svc1, Inr (Some (path, md)))"
  shows "\<exists>s content. sessions svc uid = Some s \<and>
     completed (storage svc1) path = Some content \<and>
     md_checksum md =
       (if checksum s = None \<or> checksum s = Some [] then None else Some (hexdigest content)) \<and>
     ((\<forall>b. is_sha256_hex (hexdigest b)) \<longrightarrow>
        (\<forall>c. md_checksum md = Some c \<longrightarrow> is_sha256_hex c))"
proof -
  from complete_upload_success_cases [OF assms] obtain s fs1 file_checksum where
    s: "sessions svc uid = Some s"
    and r: "reassemble_file rd (storage svc) uid (total_chunks s) (filename s)
       (Some (total_size s)) = (fs1, Some path)"
    and h: "(if truthy (checksum s) then map_sum id Some (get_file_checksum hexdigest fs1 path)
      else Inr None) = Inr file_checksum"
    and svc1: "svc1 = svc\<lparr>storage := fst (cleanup_chunks rm fs1 uid),
                sessions := (sessions svc)(uid := None)\<rparr>"
    and md: "md_checksum md = file_checksum"
    by force
  from reassemble_file_success [OF r] obtain content where
    content: "completed fs1 path = Some content"
    by blast
  have t: "truthy (checksum s) \<longleftrightarrow> \<not> (checksum s = None \<or> checksum s = Some [])"
    by (cases "checksum s") (simp_all add: truthy_def)
  from h content have "file_checksum =
      (if checksum s = None \<or> checksum s = Some [] then None else Some (hexdigest content))"
    by (auto simp: t get_file_checksum_content split: if_splits)
  with s content svc1 md show ?thesis
    by (auto split: if_splits)
qed

lemma example_hexdigest_format: "is_sha256_hex (example_hexdigest b)"
  by (simp add: is_sha256_hex_def example_hexdigest_def)

lemma service_sum_reassembly:
  "reassemble_file read_all (storage service_sum) ''u1'' 2 ''a.bin'' (Some 4) =
     ((storage service_sum)\<lparr>completed := [''a.bin'' \<mapsto> ''abcd'']\<rparr>, Some ''a.bin'')"
  by (simp add: reassemble_file_unfold list_chunks_def service_sum_def empty_storage_def
      upto_0_1 atLeastAtMost_0_1 get_chunk_eq chunk_file_def mkdir_upload_def open_wb_def
      write_out_def read_all_def insert_commute)

lemma service_sum_complete:
  "complete_upload example_hexdigest read_all False ''t1'' service_sum ''u1'' =
     (service_done,
      Inr (Some (''a.bin'', metadata0\<lparr>md_checksum := Some (example_hexdigest ''abcd'')\<rparr>)))"
proof -
  let ?s = "session0\<lparr>checksum := Some ''from-client'', received_chunks := {|0, 1|}\<rparr>"
  have s: "sessions service_sum ''u1'' = Some ?s"
    by (simp add: service_sum_def)
  have c: "is_complete ?s"
    by (simp add: is_complete_def session0_def fcard_pair_0_1)
  have f: "total_chunks ?s = 2" "filename ?s = ''a.bin''" "total_size ?s = 4"
    "checksum ?s = Some ''from-client''"
    by (simp_all add: session0_def)
  have g: "get_file_checksum example_hexdigest
      ((storage service_sum)\<lparr>completed := [''a.bin'' \<mapsto> ''abcd'']\<rparr>) ''a.bin'' =
      Inr (example_hexdigest ''abcd'')"
    by (rule get_file_checksum_content) simp
  have "complete_upload example_hexdigest read_all False ''t1'' service_sum ''u1'' =
      (service_sum\<lparr>storage := fst (cleanup_chunks False
          ((storage service_sum)\<lparr>completed := [''a.bin'' \<mapsto> ''abcd'']\<rparr>) ''u1''),
        sessions := (sessions service_sum)(''u1'' := None)\<rparr>,
       Inr (Some (''a.bin'',
         \<lparr>md_uploadId = ''u1'', md_filename = ''a.bin'', md_size = 4,
          md_checksum = Some (example_hexdigest ''abcd''),
          md_timestamp = ''t1'', md_fileType = ''unknown'',
          md_filepath = str_path ((storage service_sum)\<lparr>completed := [''a.bin'' \<mapsto> ''abcd'']\<rparr>)
            ''a.bin''\<rparr>)))"
    by (simp add: complete_upload_reassembly [OF s c] f service_sum_reassembly truthy_def
        detect_file_type_a_bin g)
  then show ?thesis
    by (simp add: cleanup_chunks_def str_path_def service_sum_def service_done_def
        empty_storage_def metadata0_def)
qed

theorem complete_upload_checksum_witness:
  "(\<forall>b. is_sha256_hex (example_hexdigest b)) \<and>
   complete_upload example_hexdigest read_all False ''t1'' service_sum ''u1'' =
     (service_done,
      Inr (Some (''a.bin'', metadata0\<lparr>md_checksum := Some (example_hexdigest ''abcd'')\<rparr>))) \<and>
   completed (storage service_done) ''a.bin'' = Some ''abcd'' \<and>
   is_sha256_hex (example_hexdigest ''abcd'') \<and>
   md_checksum metadata0 = None"
  using complete_upload_checksum [OF service_sum_complete]
    complete_upload_checksum [OF service_full_complete]
    service_sum_complete example_hexdigest_format
  by (simp add: service_done_def empty_storage_def metadata0_def)

section \<open>Validation of a JSON Lines upload\<close>

lemma check_jsonl_step:
  "i < 10 \<Longrightarrow> parses loads e \<Longrightarrow>
     check_jsonl loads i (e # rest) = check_jsonl loads (Suc i) rest"
  by (cases e) (simp_all add: parses_def)

lemma check_jsonl_prefix:
  "k \<le> length es \<Longrightarrow> i + k \<le> 10 \<Longrightarrow> (\<forall>j < k. parses loads (es ! j)) \<Longrightarrow>
     check_jsonl loads i es = check_jsonl loads (i + k) (drop k es)"
proof (induction k arbitrary: i es)
  case 0
  show ?case by simp
next
  case (Suc k)
  then obtain e rest where es: "es = e # rest" by (cases es) auto
  from Suc.prems es have first: "parses loads e" by auto
  from Suc.prems es have "\<forall>j < k. parses loads (rest ! j)" by auto
  with Suc.IH [of rest "Suc i"] Suc.prems es first show ?case
    by (simp add: check_jsonl_step)
qed

lemma check_jsonl_at:
  assumes "k < length es" and "k \<le> 10" and "\<forall>j < k. parses loads (es ! j)"
  shows "check_jsonl loads 0 es = check_jsonl loads k (es ! k # drop (Suc k) es)"
  using check_jsonl_prefix [of k es 0 loads] assms by (simp add: Cons_nth_drop_Suc)

lemma check_jsonl_json_error:
  assumes "k < length es" and "k < 10" and "\<forall>j < k. parses loads (es ! j)"
    and "es ! k = Line line" and "loads (strip line) = Json_decode_error"
  shows "check_jsonl loads 0 es = (False, Some (Invalid_jsonl_at_line (k + 1)))"
  using check_jsonl_at [OF assms(1) _ assms(3)] assms(2,4,5) by simp

lemma check_jsonl_other_exception:
  assumes "k < length es" and "k < 10" and "\<forall>j < k. parses loads (es ! j)"
    and "es ! k = Line line" and "loads (strip line) = Other_exception"
  shows "check_jsonl loads 0 es = (False, Some Validation_error)"
  using check_jsonl_at [OF assms(1) _ assms(3)] assms(2,4,5) by simp

lemma check_jsonl_read_error:
  assumes "k < length es" and "k \<le> 10" and "\<forall>j < k. parses loads (es ! j)"
    and "es ! k = Read_error"
  shows "check_jsonl loads 0 es = (False, Some Validation_error)"
  using check_jsonl_at [OF assms(1,2,3)] assms(4) by simp

lemma check_jsonl_accept:
  assumes "\<forall>j. j < length es \<and> j < 10 \<longrightarrow> parses loads (es ! j)"
    and "10 < length es \<longrightarrow> es ! 10 \<noteq> Read_error"
  shows "check_jsonl loads 0 es = (True, None)"
proof (cases "10 < length es")
  case True
  with assms(2) obtain line where "es ! 10 = Line line" by (cases "es ! 10") auto
  with check_jsonl_at [of 10 es loads] True assms(1) show ?thesis by simp
next
  case False
  with check_jsonl_prefix [of "length es" es 0 loads] assms(1) show ?thesis by simp
qed

lemma validate_dataset_jsonl:
  assumes "str_lower (path_suffix path) = ''.jsonl''" and "completed fs path = Some content"
  shows "validate_dataset loads read_lines fs path ''dataset'' =
     check_jsonl loads 0 (read_lines content)"
  using assms by (simp add: validate_dataset_def valid_extensions_def)

lemma http_complete_upload_vetoed:
  assumes "complete_upload hexdigest rd rm now (service a) uid = (svc1, Inr (Some (path, md)))"
    and "validate_dataset loads read_lines (storage svc1) path (md_fileType md) = (False, m)"
    and "completed (storage svc1) path = Some content"
  shows "http_complete_upload hexdigest rd rm loads read_lines now registered_at a uid =
     (a\<lparr>service := svc1\<lparr>storage := unlink (storage svc1) path\<rparr>\<rparr>,
      Inl \<lparr>status_code = 400, detail = Detail_validation_failed m\<rparr>)"
  using assms by (simp add: http_complete_upload_def veto_def)

lemma http_complete_upload_passed:
  assumes "complete_upload hexdigest rd rm now (service a) uid = (svc1, Inr (Some (path, md)))"
    and "validate_dataset loads read_lines (storage svc1) path (md_fileType md) = (True, m)"
  shows "\<exists>response. snd (http_complete_upload hexdigest rd rm loads read_lines now registered_at
     a uid) = Inr response"
  using assms
  by (simp add: http_complete_upload_def validate_schema_def scan_file_def Let_def)

text \<open>
  C6, as the code has it. For a completed upload of type dataset whose name has the suffix
  \<^verbatim>\<open>.jsonl\<close> the format check takes the lines of the file as they are read, blank lines
  included, and gives each of the first ten, after \<^verbatim>\<open>strip\<close>, to \<^verbatim>\<open>json.loads\<close>. Let read
  \<open>k + 1\<close> be the first that does not yield a line which parses. When it yields a line on
  which \<^verbatim>\<open>json.loads\<close> raises \<^verbatim>\<open>JSONDecodeError\<close> (as on a blank line), the endpoint answers 400
  with \<open>Invalid_jsonl_at_line (k + 1)\<close>. When the read itself raises (this can also be the
  eleventh read), or \<^verbatim>\<open>json.loads\<close> raises another exception, the endpoint answers 400
  with \<open>Validation_error\<close>, which carries no line number. In both cases the reassembled file
  is removed. When there is no such read the endpoint returns its response.
\<close>

theorem jsonl_validation:
  assumes "complete_upload hexdigest rd rm now (service a) uid = (svc1, Inr (Some (path, md)))"
    and "md_fileType md = ''dataset''" and "str_lower (path_suffix path) = ''.jsonl''"
    and "completed (storage svc1) path = Some content"
  shows "(\<forall>k line. k < length (read_lines content) \<and> k < 10 \<and>
          (\<forall>j < k. parses loads (read_lines content ! j)) \<and>
          read_lines content ! k = Line line \<and> loads (strip line) = Json_decode_error \<longrightarrow>
        http_complete_upload hexdigest rd rm loads read_lines now registered_at a uid =
          (a\<lparr>service := svc1\<lparr>storage := unlink (storage svc1) path\<rparr>\<rparr>,
           Inl \<lparr>status_code = 400,
                detail = Detail_validation_failed (Some (Invalid_jsonl_at_line (k + 1)))\<rparr>)) \<and>
     (\<forall>k. k < length (read_lines content) \<and> k \<le> 10 \<and>
          (\<forall>j < k. parses loads (read_lines content ! j)) \<and>
          (read_lines content ! k = Read_error \<or>
           k < 10 \<and> (\<exists>line. read_lines content ! k = Line line \<and>
              loads (strip line) = Other_exception)) \<longrightarrow>
        http_complete_upload hexdigest rd rm loads read_lines now registered_at a uid =
          (a\<lparr>service := svc1\<lparr>storage := unlink (storage svc1) path\<rparr>\<rparr>,
           Inl \<lparr>status_code = 400, detail = Detail_validation_failed (Some Validation_error)\<rparr>)) \<and>
     ((\<forall>j. j < length (read_lines content) \<and> j < 10 \<longrightarrow> parses loads (read_lines content ! j)) \<and>
      (10 < length (read_lines content) \<longrightarrow> read_lines content ! 10 \<noteq> Read_error) \<longrightarrow>
        (\<exists>response. snd (http_complete_upload hexdigest rd rm loads read_lines now registered_at
           a uid) = Inr response)) \<and>
     completed (unlink (storage svc1) path) path = None"
proof -
  let ?es = "read_lines content"
  have v: "validate_dataset loads read_lines (storage svc1) path (md_fileType md) =
      check_jsonl loads 0 ?es"
    using validate_dataset_jsonl [OF assms(3,4)] assms(2) by simp
  have json_error: "http_complete_upload hexdigest rd rm loads read_lines now registered_at a uid =
      (a\<lparr>service := svc1\<lparr>storage := unlink (storage svc1) path\<rparr>\<rparr>,
       Inl \<lparr>status_code = 400,
            detail = Detail_validation_failed (Some (Invalid_jsonl_at_line (k + 1)))\<rparr>)"
    if "k < length ?es \<and> k < 10 \<and> (\<forall>j < k. parses loads (?es ! j)) \<and>
      ?es ! k = Line line \<and> loads (strip line) = Json_decode_error" for k line
  proof -
    from that have "check_jsonl loads 0 ?es = (False, Some (Invalid_jsonl_at_line (k + 1)))"
      by (intro check_jsonl_json_error) auto
    with v http_complete_upload_vetoed [OF assms(1) _ assms(4)] show ?thesis by simp
  qed
  have raised: "http_complete_upload hexdigest rd rm loads read_lines now registered_at a uid =
      (a\<lparr>service := svc1\<lparr>storage := unlink (storage svc1) path\<rparr>\<rparr>,
       Inl \<lparr>status_code = 400, detail = Detail_validation_failed (Some Validation_error)\<rparr>)"
    if "k < length ?es \<and> k \<le> 10 \<and> (\<forall>j < k. parses loads (?es ! j)) \<and>
      (?es ! k = Read_error \<or>
       k < 10 \<and> (\<exists>line. ?es ! k = Line line \<and> loads (strip line) = Other_exception))" for k
  proof -
    from that have "check_jsonl loads 0 ?es = (False, Some Validation_error)"
      using check_jsonl_read_error [of k ?es loads]
        check_jsonl_other_exception [of k ?es loads] by auto
    with v http_complete_upload_vetoed [OF assms(1) _ assms(4)] show ?thesis by simp
  qed
  have passed: "\<exists>response. snd (http_complete_upload hexdigest rd rm loads read_lines now
      registered_at a uid) = Inr response"
    if "(\<forall>j. j < length ?es \<and> j < 10 \<longrightarrow> parses loads (?es ! j)) \<and>
      (10 < length ?es \<longrightarrow> ?es ! 10 \<noteq> Read_error)"
  proof -
    from that have "check_jsonl loads 0 ?es = (True, None)"
      by (intro check_jsonl_accept) auto
    with v http_complete_upload_passed [OF assms(1)] show ?thesis by simp
  qed
  have removed: "completed (unlink (storage svc1) path) path = None"
    by (simp add: unlink_def)
  from json_error raised passed removed show ?thesis
    by blast
qed


lemma blank_line_jsonl_reads:
  "read_ascii_lines blank_line_jsonl =
     [Line (ascii_str (''[1, 2]'' @ [LF])), Line (ascii_str [LF]), Line (ascii_str (''{}'' @ [LF]))]"
  "text_lines (ascii_str blank_line_jsonl) =
     [ascii_str (''[1, 2]'' @ [LF]), ascii_str [LF], ascii_str (''{}'' @ [LF])]"
  "json_loads (strip (ascii_str (''[1, 2]'' @ [LF]))) = Loads_value"
  "strip (ascii_str [LF]) = []"
  "json_loads [] = Json_decode_error"
  "json_loads (strip (ascii_str (''{}'' @ [LF]))) = Loads_value"
  by code_simp+

lemma blank_line_jsonl_second:
  "length (read_ascii_lines blank_line_jsonl) = 3"
  "parses json_loads (read_ascii_lines blank_line_jsonl ! 0)"
  "read_ascii_lines blank_line_jsonl ! 1 = Line (ascii_str [LF])"
  by code_simp+

lemma blank_line_jsonl_length: "int (length blank_line_jsonl) = 11"
  by (simp add: blank_line_jsonl_def)

lemma x_jsonl_type:
  "detect_file_type ''x.jsonl'' = ''dataset''" "str_lower (path_suffix ''x.jsonl'') = ''.jsonl''"
  by code_simp+

theorem jsonl_blank_line_counterexample:
  "validate_dataset json_loads read_ascii_lines (storage service_jsonl_done) ''x.jsonl''
     ''dataset'' = (False, Some (Invalid_jsonl_at_line 2)) \<and>
   completed (storage service_jsonl_done) ''x.jsonl'' = Some blank_line_jsonl \<and>
   read_ascii_lines blank_line_jsonl = map Line (text_lines (ascii_str blank_line_jsonl)) \<and>
   spec_check_jsonl json_loads (text_lines (ascii_str blank_line_jsonl)) = (True, None)"
proof -
  have c: "completed (storage service_jsonl_done) ''x.jsonl'' = Some blank_line_jsonl"
    by (simp add: service_jsonl_done_def empty_storage_def)
  have "check_jsonl json_loads 0 (read_ascii_lines blank_line_jsonl) =
      (False, Some (Invalid_jsonl_at_line 2))"
    by code_simp
  moreover have "spec_check_jsonl json_loads (text_lines (ascii_str blank_line_jsonl)) =
      (True, None)"
    by code_simp
  ultimately show ?thesis
    using c by (simp add: validate_dataset_jsonl [OF x_jsonl_type(2) c] read_ascii_lines_def)
qed


lemma upto_0_0: "[0..(0::int)] = [0]"
  by (simp add: upto.simps)

lemma service_jsonl_reassembly:
  "reassemble_file read_all (storage service_jsonl) ''u3'' 1 ''x.jsonl'' (Some 11) =
     ((storage service_jsonl)\<lparr>completed := [''x.jsonl'' \<mapsto> blank_line_jsonl]\<rparr>, Some ''x.jsonl'')"
  by (simp add: reassemble_file_unfold list_chunks_def service_jsonl_def empty_storage_def
      upto_0_0 get_chunk_eq chunk_file_def mkdir_upload_def open_wb_def write_out_def
      read_all_def blank_line_jsonl_length)

lemma service_jsonl_complete:
  "complete_upload example_hexdigest read_all False ''t1'' (service app_jsonl) ''u3'' =
     (service_jsonl_done, Inr (Some (''x.jsonl'', metadata_jsonl)))"
proof -
  have a: "service app_jsonl = service_jsonl"
    by (simp add: app_jsonl_def)
  have s: "sessions service_jsonl ''u3'' = Some session_jsonl"
    by (simp add: service_jsonl_def)
  have c: "is_complete session_jsonl"
    by (simp add: is_complete_def session_jsonl_def)
  have f: "total_chunks session_jsonl = 1" "filename session_jsonl = ''x.jsonl''"
    "total_size session_jsonl = 11" "checksum session_jsonl = None"
    by (simp_all add: session_jsonl_def)
  have "complete_upload example_hexdigest read_all False ''t1'' service_jsonl ''u3'' =
      (service_jsonl\<lparr>storage := fst (cleanup_chunks False
          ((storage service_jsonl)\<lparr>completed := [''x.jsonl'' \<mapsto> blank_line_jsonl]\<rparr>) ''u3''),
        sessions := (sessions service_jsonl)(''u3'' := None)\<rparr>,
       Inr (Some (''x.jsonl'',
         \<lparr>md_uploadId = ''u3'', md_filename = ''x.jsonl'', md_size = 11, md_checksum = None,
          md_timestamp = ''t1'', md_fileType = ''dataset'',
          md_filepath = str_path
            ((storage service_jsonl)\<lparr>completed := [''x.jsonl'' \<mapsto> blank_line_jsonl]\<rparr>)
            ''x.jsonl''\<rparr>)))"
    by (simp add: complete_upload_reassembly [OF s c] f service_jsonl_reassembly truthy_def
        x_jsonl_type)
  then show ?thesis
    by (simp add: a cleanup_chunks_def str_path_def service_jsonl_def service_jsonl_done_def
        empty_storage_def metadata_jsonl_def)
qed

theorem jsonl_validation_witness:
  "complete_upload example_hexdigest read_all False ''t1'' (service app_jsonl) ''u3'' =
     (service_jsonl_done, Inr (Some (''x.jsonl'', metadata_jsonl))) \<and>
   md_fileType metadata_jsonl = ''dataset'' \<and>
   str_lower (path_suffix ''x.jsonl'') = ''.jsonl'' \<and>
   completed (storage service_jsonl_done) ''x.jsonl'' = Some blank_line_jsonl \<and>
   read_ascii_lines blank_line_jsonl =
     [Line (ascii_str (''[1, 2]'' @ [LF])), Line (ascii_str [LF]), Line (ascii_str (''{}'' @ [LF]))] \<and>
   json_loads (strip (ascii_str (''[1, 2]'' @ [LF]))) = Loads_value \<and>
   json_loads (strip (ascii_str [LF])) = Json_decode_error \<and>
   http_complete_upload example_hexdigest read_all False json_loads read_ascii_lines ''t1'' ''t2''
     app_jsonl ''u3'' =
     (app_jsonl\<lparr>service :=
        service_jsonl_done\<lparr>storage := unlink (storage service_jsonl_done) ''x.jsonl''\<rparr>\<rparr>,
      Inl \<lparr>status_code = 400,
           detail = Detail_validation_failed (Some (Invalid_jsonl_at_line 2))\<rparr>) \<and>
   completed (unlink (storage service_jsonl_done) ''x.jsonl'') ''x.jsonl'' = None"
proof -
  have t: "md_fileType metadata_jsonl = ''dataset''"
    by (simp add: metadata_jsonl_def)
  have x: "completed (storage service_jsonl_done) ''x.jsonl'' = Some blank_line_jsonl"
    by (simp add: service_jsonl_done_def empty_storage_def)
  have e: "json_loads (strip (ascii_str [LF])) = Json_decode_error"
    by (simp add: blank_line_jsonl_reads(4,5))
  have k: "1 < length (read_ascii_lines blank_line_jsonl) \<and> (1::nat) < 10 \<and>
      (\<forall>j < 1. parses json_loads (read_ascii_lines blank_line_jsonl ! j)) \<and>
      read_ascii_lines blank_line_jsonl ! 1 = Line (ascii_str [LF]) \<and>
      json_loads (strip (ascii_str [LF])) = Json_decode_error"
    using e blank_line_jsonl_second by simp
  from jsonl_validation
      [where read_lines = read_ascii_lines and loads = json_loads and registered_at = "''t2''",
       OF service_jsonl_complete t x_jsonl_type(2) x] k
  have "http_complete_upload example_hexdigest read_all False json_loads read_ascii_lines
      ''t1'' ''t2'' app_jsonl ''u3'' =
      (app_jsonl\<lparr>service :=
         service_jsonl_done\<lparr>storage := unlink (storage service_jsonl_done) ''x.jsonl''\<rparr>\<rparr>,
       Inl \<lparr>status_code = 400,
            detail = Detail_validation_failed (Some (Invalid_jsonl_at_line (1 + 1)))\<rparr>) \<and>
      completed (unlink (storage service_jsonl_done) ''x.jsonl'') ''x.jsonl'' = None"
    by blast
  with service_jsonl_complete t x x_jsonl_type(2) blank_line_jsonl_reads(1,3) e show ?thesis
    by simp
qed

section \<open>complete_upload on a session that is missing or not complete\<close>

lemma get_missing_chunks_facts:
  "sorted (get_missing_chunks s)" "distinct (get_missing_chunks s)"
  "set (get_missing_chunks s) = {i. 0 \<le> i \<and> i < total_chunks s \<and> i |\<notin>| received_chunks s}"
  by (auto simp: get_missing_chunks_def sorted_list_of_fset.rep_eq fset_of_list.rep_eq)

lemma complete_upload_no_session:
  "sessions svc uid = None \<Longrightarrow> complete_upload hexdigest rd rm now svc uid = (svc, Inr None)"
  by (simp add: complete_upload_def get_session_def)

lemma complete_upload_incomplete:
  "sessions svc uid = Some s \<Longrightarrow> \<not> is_complete s \<Longrightarrow>
     complete_upload hexdigest rd rm now svc uid =
       (svc, Inl (ValueError_incomplete (get_missing_chunks s)))"
  by (simp add: complete_upload_def get_session_def)

text \<open>
  C5, as the code has it. For an upload id that is not in the registry \<open>complete_upload\<close>
  raises nothing: it returns \<^verbatim>\<open>None\<close>, and the endpoint answers 400 with
  \<open>Detail_failed_to_complete\<close>, which carries no list of indices. For a session that exists
  and is not complete it raises the error with the missing indices (the indices of
  \<open>[0, total_chunks)\<close> that are not received, ascending, each once), and the endpoint answers
  400 with that list. In both cases nothing is reassembled: the application is unchanged.
\<close>

theorem complete_upload_not_ready:
  "(sessions (service a) uid = None \<longrightarrow>
      complete_upload hexdigest rd rm now (service a) uid = (service a, Inr None) \<and>
      http_complete_upload hexdigest rd rm loads read_lines now registered_at a uid =
        (a, Inl \<lparr>status_code = 400, detail = Detail_failed_to_complete\<rparr>)) \<and>
   (\<forall>s. sessions (service a) uid = Some s \<and> \<not> is_complete s \<longrightarrow>
      complete_upload hexdigest rd rm now (service a) uid =
        (service a, Inl (ValueError_incomplete (get_missing_chunks s))) \<and>
      http_complete_upload hexdigest rd rm loads read_lines now registered_at a uid =
        (a, Inl \<lparr>status_code = 400, detail = Detail_incomplete (get_missing_chunks s)\<rparr>) \<and>
      sorted (get_missing_chunks s) \<and> distinct (get_missing_chunks s) \<and>
      set (get_missing_chunks s) =
        {i. 0 \<le> i \<and> i < total_chunks s \<and> i |\<notin>| received_chunks s})"
  by (simp add: http_complete_upload_def complete_upload_no_session complete_upload_incomplete
      get_missing_chunks_facts)

theorem complete_upload_unknown_id_counterexample:
  "sessions service0 ''nobody'' = None \<and>
   complete_upload example_hexdigest read_all False ''t1'' service0 ''nobody'' = (service0, Inr None) \<and>
   http_complete_upload example_hexdigest read_all False json_loads read_ascii_lines ''t1'' ''t2'' app0
     ''nobody'' =
     (app0, Inl \<lparr>status_code = 400, detail = Detail_failed_to_complete\<rparr>)"
  by (simp add: http_complete_upload_def complete_upload_no_session service0_def app0_def)

theorem complete_upload_not_ready_witness:
  "sessions (service app0) ''nobody'' = None \<and>
   sessions (service app0) ''u1'' = Some session0 \<and> \<not> is_complete session0 \<and>
   complete_upload example_hexdigest read_all False ''t1'' (service app0) ''nobody'' =
     (service app0, Inr None) \<and>
   complete_upload example_hexdigest read_all False ''t1'' (service app0) ''u1'' =
     (service app0, Inl (ValueError_incomplete [0, 1])) \<and>
   http_complete_upload example_hexdigest read_all False json_loads read_ascii_lines ''t1'' ''t2'' app0
     ''u1'' =
     (app0, Inl \<lparr>status_code = 400, detail = Detail_incomplete [0, 1]\<rparr>)"
proof -
  have s: "sessions (service app0) ''nobody'' = None"
    "sessions (service app0) ''u1'' = Some session0"
    by (simp_all add: app0_def service0_def)
  have c: "\<not> is_complete session0"
    by (simp add: is_complete_def session0_def fcard.rep_eq)
  have m: "get_missing_chunks session0 = [0, 1]"
    by (simp add: get_missing_chunks_def session0_def upto_0_1 sorted_list_of_fset.rep_eq
        fset_of_list.rep_eq)
  show ?thesis
    using complete_upload_not_ready
        [where a = app0 and uid = "''nobody''" and hexdigest = example_hexdigest
           and rd = read_all and rm = False and now = "''t1''"]
      complete_upload_not_ready
        [where a = app0 and uid = "''u1''" and hexdigest = example_hexdigest
           and rd = read_all and rm = False and now = "''t1''" and loads = json_loads
           and read_lines = read_ascii_lines and registered_at = "''t2''"]
      s c m
    by simp
qed

section \<open>The order of arrival of the chunks\<close>

lemma store_chunk_frame:
  "p \<noteq> (uid, i) \<Longrightarrow>
     chunk_file (fst (store_chunk io fs uid i d)) p = chunk_file fs p"
  using store_chunk_result [of io fs uid i d]
  by (cases "snd (store_chunk io fs uid i d)") (simp_all add: chunk_file_write_chunk)

lemma upload_chunk_store_frame:
  "p \<noteq> (uid, i) \<Longrightarrow>
     chunk_file (storage (fst (upload_chunk_store io svc uid s i d))) p =
     chunk_file (storage svc) p"
  using store_chunk_frame [of p uid i io "storage svc" d]
  by (cases "store_chunk io (storage svc) uid i d") (simp add: upload_chunk_store_def Let_def)

lemma upload_chunk_frame:
  assumes "p \<noteq> (uid, i)"
  shows "chunk_file (storage (fst (upload_chunk io svc uid i d claimed))) p =
     chunk_file (storage svc) p"
proof (cases "sessions svc uid")
  case None
  then show ?thesis by (simp add: upload_chunk_no_session)
next
  case (Some s)
  show ?thesis
    using Some upload_chunk_store_frame
      [OF assms, of io "svc\<lparr>storage := mkdir_upload (storage svc) uid\<rparr>" s d]
    by (simp add: upload_chunk_def get_session_def chunk_exists_eq get_chunk_size_eq Let_def)
qed

lemma upload_all_frame:
  "upload_all svc uid claimed ups = (svc1, ok) \<Longrightarrow> i \<notin> fst ` set ups \<Longrightarrow>
     chunk_file (storage svc1) (uid, i) = chunk_file (storage svc) (uid, i)"
proof (induction ups arbitrary: svc)
  case Nil
  then show ?case by simp
next
  case (Cons u rest)
  obtain j d io where u: "u = (j, d, io)" by (cases u)
  obtain svc' ok' n msg where step: "upload_chunk io svc uid j d claimed = (svc', ok', n, msg)"
    by (cases "upload_chunk io svc uid j d claimed")
  from Cons.prems(2) u have ne: "(uid, i) \<noteq> (uid, j)" by auto
  have frame: "chunk_file (storage svc') (uid, i) = chunk_file (storage svc) (uid, i)"
    using upload_chunk_frame [OF ne, of io svc d claimed] step by simp
  show ?case
  proof (cases ok')
    case True
    with Cons.prems u step have "upload_all svc' uid claimed rest = (svc1, ok)" by simp
    from Cons.IH [OF this] Cons.prems(2) frame show ?thesis by simp
  next
    case False
    with Cons.prems u step frame show ?thesis by simp
  qed
qed

lemma map_nth_upto: "map (\<lambda>i. cs ! nat i) [0..int (length cs) - 1] = cs"
  by (rule nth_equalityI) simp_all

lemma service0_upload_out_of_order:
  "upload_all service0 ''u1'' 2 [(1, ''cd'', io_good), (0, ''ab'', io_good)] = (service_full, True)"
proof -
  let ?svc = "service0\<lparr>storage := empty_storage\<lparr>uploads := [''u1'' \<mapsto> [(1, ''cd'')]]\<rparr>,
      sessions := [''u1'' \<mapsto> session0\<lparr>received_chunks := {|1|}\<rparr>]\<rparr>"
  have first: "upload_chunk io_good service0 ''u1'' 1 ''cd'' 2 =
      (?svc, True, 1, Chunk_uploaded_successfully)"
    by (simp add: upload_chunk_def get_session_def service0_def session0_def chunk_exists_eq
        chunk_file_def empty_storage_def upload_chunk_store_def store_chunk_good write_chunk_def
        mkdir_upload_def add_received_def len_received_def)
  have second: "upload_chunk io_good ?svc ''u1'' 0 ''ab'' 2 =
      (service_full, True, 2, Chunk_uploaded_successfully)"
    by (simp add: upload_chunk_def get_session_def service0_def session0_def chunk_exists_eq
        chunk_file_def empty_storage_def upload_chunk_store_def store_chunk_good write_chunk_def
        mkdir_upload_def add_received_def len_received_def service_full_def fcard_pair_0_1)
  show ?thesis
    by (simp add: first second)
qed

lemma upload_chunk_committed:
  assumes "fst (snd (upload_chunk io svc uid i d claimed))" and "sessions svc uid = Some s"
  shows "(\<exists>s1. sessions (fst (upload_chunk io svc uid i d claimed)) uid = Some s1 \<and>
        total_chunks s1 = total_chunks s \<and> filename s1 = filename s) \<and>
     chunk_file (storage (fst (upload_chunk io svc uid i d claimed))) (uid, i) =
       Some (committed_after (storage svc) uid i d)"
proof -
  have valid: "0 \<le> i" "i < total_chunks s" "claimed = total_chunks s"
    using assms by (auto simp: upload_chunk_def get_session_def split: if_splits)
  show ?thesis
  proof (cases "map_option length (chunk_file (storage svc) (uid, i)) = Some (length d)")
    case True
    then obtain old where old: "chunk_file (storage svc) (uid, i) = Some old"
      "length old = length d" by auto
    from upload_chunk_shortcut [OF assms(2) valid old, of io] old show ?thesis
      by (simp add: add_received_def committed_after_def)
  next
    case False
    let ?svc1 = "svc\<lparr>storage := mkdir_upload (storage svc) uid\<rparr>"
    from False assms(2) valid
    have eq: "upload_chunk io svc uid i d claimed = upload_chunk_store io ?svc1 uid s i d"
      by (auto simp: upload_chunk_def get_session_def chunk_exists_eq get_chunk_size_eq Let_def
          split: option.splits)
    with assms(1) have "fst (snd (upload_chunk_store io ?svc1 uid s i d))" by simp
    from upload_chunk_store_success [OF this] eq False show ?thesis
      by (auto simp: add_received_def committed_after_def split: option.splits)
  qed
qed

lemma committed_after_cong:
  "chunk_file fs' (uid, i) = chunk_file fs (uid, i) \<Longrightarrow>
     committed_after fs' uid i d = committed_after fs uid i d"
  by (simp add: committed_after_def)

lemma upload_all_committed:
  assumes "upload_all svc uid claimed ups = (svc1, True)" and "sessions svc uid = Some s"
    and "distinct (map fst ups)"
  shows "(\<exists>s1. sessions svc1 uid = Some s1 \<and> total_chunks s1 = total_chunks s \<and>
        filename s1 = filename s) \<and>
     (\<forall>(i, d, io) \<in> set ups.
        chunk_file (storage svc1) (uid, i) = Some (committed_after (storage svc) uid i d))"
  using assms
proof (induction ups arbitrary: svc s)
  case Nil
  then show ?case by simp
next
  case (Cons u rest)
  obtain j d io where u: "u = (j, d, io)" by (cases u)
  obtain svc' ok' n msg where step: "upload_chunk io svc uid j d claimed = (svc', ok', n, msg)"
    by (cases "upload_chunk io svc uid j d claimed")
  from Cons.prems(1) u step have ok': ok'
    by (cases ok') simp_all
  with Cons.prems(1) u step have rest: "upload_all svc' uid claimed rest = (svc1, True)"
    by simp
  from upload_chunk_committed [of io svc uid j d claimed, OF _ Cons.prems(2)] step ok'
  obtain s' where s': "sessions svc' uid = Some s'" "total_chunks s' = total_chunks s"
    "filename s' = filename s"
    and here: "chunk_file (storage svc') (uid, j) = Some (committed_after (storage svc) uid j d)"
    by auto
  from Cons.prems(3) u have dist: "distinct (map fst rest)" and nj: "j \<notin> fst ` set rest"
    by auto
  from Cons.IH [OF rest s'(1) dist] s'(2,3)
  have ih: "\<exists>s1. sessions svc1 uid = Some s1 \<and> total_chunks s1 = total_chunks s \<and>
      filename s1 = filename s"
    "\<forall>(i, d, io) \<in> set rest.
        chunk_file (storage svc1) (uid, i) = Some (committed_after (storage svc') uid i d)"
    by simp_all
  have others: "chunk_file (storage svc1) (uid, i) = Some (committed_after (storage svc) uid i e)"
    if "(i, e, io') \<in> set rest" for i e io'
  proof -
    from that nj have "(uid, i) \<noteq> (uid, j)" by force
    from upload_chunk_frame [OF this, of io svc d claimed] step
    have "chunk_file (storage svc') (uid, i) = chunk_file (storage svc) (uid, i)" by simp
    from committed_after_cong [OF this] ih(2) that show ?thesis by fastforce
  qed
  from upload_all_frame [OF rest nj] here
  have "chunk_file (storage svc1) (uid, j) = Some (committed_after (storage svc) uid j d)"
    by simp
  with ih(1) u others show ?case
    by auto
qed


lemma reassembled_after_uploads:
  assumes "sessions svc uid = Some s" and "total_chunks s = int (length cs)"
    and "mset (map fst ups) = mset [0..int (length cs) - 1]"
    and "\<forall>(i, d, io) \<in> set ups. d = cs ! nat i"
    and "upload_all svc uid (int (length cs)) ups = (svc1, True)"
    and "complete_upload hexdigest rd rm now svc1 uid = (svc2, Inr (Some (path, md)))"
  shows "path = filename s \<and>
     completed (storage svc2) path =
       Some (concat (map (\<lambda>i. committed_after (storage svc) uid i (cs ! nat i))
         [0..int (length cs) - 1]))"
proof -
  have distinct: "distinct (map fst ups)"
    using mset_eq_imp_distinct_iff [OF assms(3)] by simp
  have indices: "fst ` set ups = {0..int (length cs) - 1}"
    using mset_eq_setD [OF assms(3)] by simp
  from upload_all_committed [OF assms(5) assms(1) distinct] obtain s1 where
    s1: "sessions svc1 uid = Some s1" "total_chunks s1 = int (length cs)"
      "filename s1 = filename s"
    and stored: "\<forall>(i, d, io) \<in> set ups.
      chunk_file (storage svc1) (uid, i) = Some (committed_after (storage svc) uid i d)"
    using assms(2) by auto
  have chunk: "chunk_file (storage svc1) (uid, i) =
      Some (committed_after (storage svc) uid i (cs ! nat i))"
    if "i \<in> set [0..int (length cs) - 1]" for i
  proof -
    from that indices obtain d io where "(i, d, io) \<in> set ups" by force
    with stored assms(4) show ?thesis by fastforce
  qed
  from complete_upload_success_cases [OF assms(6)] s1 obtain fs1 where
    r: "reassemble_file rd (storage svc1) uid (int (length cs)) (filename s)
       (Some (total_size s1)) = (fs1, Some path)"
    and svc2: "svc2 = svc1\<lparr>storage := fst (cleanup_chunks rm fs1 uid),
                sessions := (sessions svc1)(uid := None)\<rparr>"
    by auto
  from reassemble_file_success [OF r]
  have p: "path = filename s" and "completed fs1 path =
      Some (concat (map (\<lambda>i. the (chunk_file (storage svc1) (uid, i))) [0..int (length cs) - 1]))"
    by simp_all
  moreover have "map (\<lambda>i. the (chunk_file (storage svc1) (uid, i))) [0..int (length cs) - 1] =
      map (\<lambda>i. committed_after (storage svc) uid i (cs ! nat i)) [0..int (length cs) - 1]"
    using chunk by (intro map_cong) simp_all
  ultimately show ?thesis
    by (simp add: svc2)
qed

lemma committed_after_same:
  assumes "\<forall>i \<in> set [0..int (length cs) - 1]. \<forall>old.
      chunk_file fs (uid, i) = Some old \<and> length old = length (cs ! nat i) \<longrightarrow> old = cs ! nat i"
  shows "map (\<lambda>i. committed_after fs uid i (cs ! nat i)) [0..int (length cs) - 1] = cs"
proof -
  have "map (\<lambda>i. committed_after fs uid i (cs ! nat i)) [0..int (length cs) - 1] =
      map (\<lambda>i. cs ! nat i) [0..int (length cs) - 1]"
    using assms by (intro map_cong) (auto simp: committed_after_def split: option.splits)
  then show ?thesis by (simp add: map_nth_upto)
qed

text \<open>
  C2, as the code has it. Take any session and chunk contents \<open>cs\<close>, one for each of its
  indices, and let the client upload every index exactly once, index \<open>i\<close> with the bytes
  \<open>cs ! i\<close>, every upload succeeding, before a successful \<open>complete_upload\<close>. The reassembled
  file does not depend on the order of arrival: two such runs from the same state give the
  same file. Its segment for index \<open>i\<close> is the chunk that was committed for \<open>i\<close> before the
  run when that chunk has the length of \<open>cs ! i\<close> (the shortcut compares sizes only and
  keeps it), and \<open>cs ! i\<close> otherwise. So the file is the concatenation of \<open>cs\<close> whenever no
  chunk of the same length and other bytes was committed before, as in a new session.
\<close>

theorem arrival_order_irrelevant:
  assumes "sessions svc uid = Some s" and "total_chunks s = int (length cs)"
    and "mset (map fst ups) = mset [0..int (length cs) - 1]"
    and "\<forall>(i, d, io) \<in> set ups. d = cs ! nat i"
    and "upload_all svc uid (int (length cs)) ups = (svc1, True)"
    and "complete_upload hexdigest rd rm now svc1 uid = (svc2, Inr (Some (path, md)))"
    and "mset (map fst ups') = mset [0..int (length cs) - 1]"
    and "\<forall>(i, d, io) \<in> set ups'. d = cs ! nat i"
    and "upload_all svc uid (int (length cs)) ups' = (svc1', True)"
    and "complete_upload hexdigest' rd' rm' now' svc1' uid = (svc2', Inr (Some (path', md')))"
  shows "path' = path \<and> completed (storage svc2') path' = completed (storage svc2) path \<and>
     completed (storage svc2) path =
       Some (concat (map (\<lambda>i. committed_after (storage svc) uid i (cs ! nat i))
         [0..int (length cs) - 1])) \<and>
     ((\<forall>i \<in> set [0..int (length cs) - 1]. \<forall>old.
          chunk_file (storage svc) (uid, i) = Some old \<and> length old = length (cs ! nat i) \<longrightarrow>
          old = cs ! nat i) \<longrightarrow>
      completed (storage svc2) path = Some (concat cs))"
proof -
  note first = reassembled_after_uploads [OF assms(1-6)]
  note second = reassembled_after_uploads [OF assms(1,2) assms(7-10)]
  from first second show ?thesis
    by (auto simp: committed_after_same)
qed


lemma fset_1_0: "{|1::int, 0|} = {|0, 1|}"
  by auto

lemmas upload_chunk_eval = fset_1_0
  upload_chunk_def get_session_def chunk_exists_eq get_chunk_size_eq chunk_file_def
  upload_chunk_store_def store_chunk_good write_chunk_def mkdir_upload_def add_received_def
  len_received_def empty_storage_def session0_def fcard_pair_0_1

lemma service0_upload_in_order:
  "upload_all service0 ''u1'' 2 [(0, ''ab'', io_good), (1, ''cd'', io_good)] =
     (service_full_b, True)"
proof -
  have second: "upload_chunk io_good service1 ''u1'' 1 ''cd'' 2 =
      (service_full_b, True, 2, Chunk_uploaded_successfully)"
    by (simp add: upload_chunk_eval service1_def service_full_b_def)
  show ?thesis
    by (simp add: service0_upload_first second)
qed

lemma service_full_b_reassembly:
  "reassemble_file read_all (storage service_full_b) ''u1'' 2 ''a.bin'' (Some 4) =
     ((storage service_full_b)\<lparr>completed := [''a.bin'' \<mapsto> ''abcd'']\<rparr>, Some ''a.bin'')"
  by (simp add: reassemble_file_unfold list_chunks_def service_full_b_def empty_storage_def
      upto_0_1 atLeastAtMost_0_1 get_chunk_eq chunk_file_def mkdir_upload_def open_wb_def
      write_out_def read_all_def insert_commute)

lemma two_chunk_session:
  "is_complete (session0\<lparr>received_chunks := {|0, 1|}\<rparr>)"
  "total_chunks (session0\<lparr>received_chunks := {|0, 1|}\<rparr>) = 2"
  "filename (session0\<lparr>received_chunks := {|0, 1|}\<rparr>) = ''a.bin''"
  "total_size (session0\<lparr>received_chunks := {|0, 1|}\<rparr>) = 4"
  "checksum (session0\<lparr>received_chunks := {|0, 1|}\<rparr>) = None"
  by (simp_all add: session0_def is_complete_def fcard_pair_0_1)

lemma service_full_b_complete:
  "complete_upload example_hexdigest read_all False ''t1'' service_full_b ''u1'' =
     (service_done, Inr (Some (''a.bin'', metadata0)))"
proof -
  have s: "sessions service_full_b ''u1'' = Some (session0\<lparr>received_chunks := {|0, 1|}\<rparr>)"
    by (simp add: service_full_b_def)
  have p: "str_path ((storage service_full_b)\<lparr>completed := [''a.bin'' \<mapsto> ''abcd'']\<rparr>) ''a.bin''
      = ''completed/a.bin''"
    by (simp add: str_path_def service_full_b_def empty_storage_def)
  have "complete_upload example_hexdigest read_all False ''t1'' service_full_b ''u1'' =
      (service_full_b\<lparr>storage := fst (cleanup_chunks False
          ((storage service_full_b)\<lparr>completed := [''a.bin'' \<mapsto> ''abcd'']\<rparr>) ''u1''),
        sessions := (sessions service_full_b)(''u1'' := None)\<rparr>,
       Inr (Some (''a.bin'', metadata0)))"
    by (simp add: complete_upload_reassembly [OF s two_chunk_session(1)] two_chunk_session
        service_full_b_reassembly truthy_def detect_file_type_a_bin p metadata0_def)
  then show ?thesis
    by (simp add: cleanup_chunks_def service_full_b_def service_done_def empty_storage_def)
qed

lemma service0_upload_stale:
  "upload_chunk io_good service0 ''u1'' 0 ''xy'' 2 =
     (service_stale, True, 1, Chunk_uploaded_successfully)"
  by (simp add: upload_chunk_eval service0_def service_stale_def)

lemma service_stale_upload_out_of_order:
  "upload_all service_stale ''u1'' 2 [(1, ''cd'', io_good), (0, ''ab'', io_good)] =
     (service_stale_full, True)"
proof -
  have first: "upload_chunk io_good service_stale ''u1'' 1 ''cd'' 2 =
      (service_stale_full, True, 2, Chunk_uploaded_successfully)"
    by (simp add: upload_chunk_eval service_stale_def service_stale_full_def)
  have second: "upload_chunk io_good service_stale_full ''u1'' 0 ''ab'' 2 =
      (service_stale_full, True, 2, Chunk_already_uploaded)"
    by (simp add: upload_chunk_eval service_stale_full_def)
  show ?thesis
    by (simp add: first second)
qed

lemma service_stale_full_reassembly:
  "reassemble_file read_all (storage service_stale_full) ''u1'' 2 ''a.bin'' (Some 4) =
     ((storage service_stale_full)\<lparr>completed := [''a.bin'' \<mapsto> ''xycd'']\<rparr>, Some ''a.bin'')"
  by (simp add: reassemble_file_unfold list_chunks_def service_stale_full_def empty_storage_def
      upto_0_1 atLeastAtMost_0_1 get_chunk_eq chunk_file_def mkdir_upload_def open_wb_def
      write_out_def read_all_def insert_commute)

lemma service_stale_full_complete:
  "complete_upload example_hexdigest read_all False ''t1'' service_stale_full ''u1'' =
     (service_stale_done, Inr (Some (''a.bin'', metadata0)))"
proof -
  have s: "sessions service_stale_full ''u1'' = Some (session0\<lparr>received_chunks := {|0, 1|}\<rparr>)"
    by (simp add: service_stale_full_def)
  have p: "str_path ((storage service_stale_full)\<lparr>completed := [''a.bin'' \<mapsto> ''xycd'']\<rparr>)
      ''a.bin'' = ''completed/a.bin''"
    by (simp add: str_path_def service_stale_full_def empty_storage_def)
  have "complete_upload example_hexdigest read_all False ''t1'' service_stale_full ''u1'' =
      (service_stale_full\<lparr>storage := fst (cleanup_chunks False
          ((storage service_stale_full)\<lparr>completed := [''a.bin'' \<mapsto> ''xycd'']\<rparr>) ''u1''),
        sessions := (sessions service_stale_full)(''u1'' := None)\<rparr>,
       Inr (Some (''a.bin'', metadata0)))"
    by (simp add: complete_upload_reassembly [OF s two_chunk_session(1)] two_chunk_session
        service_stale_full_reassembly truthy_def detect_file_type_a_bin p metadata0_def)
  then show ?thesis
    by (simp add: cleanup_chunks_def service_stale_full_def service_stale_done_def
        empty_storage_def)
qed

theorem stale_chunk_counterexample:
  "upload_chunk io_good service0 ''u1'' 0 ''xy'' 2 =
     (service_stale, True, 1, Chunk_uploaded_successfully) \<and>
   upload_all service_stale ''u1'' 2 [(1, ''cd'', io_good), (0, ''ab'', io_good)] =
     (service_stale_full, True) \<and>
   complete_upload example_hexdigest read_all False ''t1'' service_stale_full ''u1'' =
     (service_stale_done, Inr (Some (''a.bin'', metadata0))) \<and>
   completed (storage service_stale_done) ''a.bin'' = Some ''xycd'' \<and>
   completed (storage service_stale_done) ''a.bin'' \<noteq> Some (concat [''ab'', ''cd''])"
  using service0_upload_stale service_stale_upload_out_of_order service_stale_full_complete
  by (simp add: service_stale_done_def empty_storage_def del: upload_all.simps)

theorem arrival_order_irrelevant_witness:
  "upload_all service0 ''u1'' 2 [(1, ''cd'', io_good), (0, ''ab'', io_good)] = (service_full, True) \<and>
   upload_all service0 ''u1'' 2 [(0, ''ab'', io_good), (1, ''cd'', io_good)] =
     (service_full_b, True) \<and>
   complete_upload example_hexdigest read_all False ''t1'' service_full ''u1'' =
     (service_done, Inr (Some (''a.bin'', metadata0))) \<and>
   complete_upload example_hexdigest read_all False ''t1'' service_full_b ''u1'' =
     (service_done, Inr (Some (''a.bin'', metadata0))) \<and>
   completed (storage service_done) ''a.bin'' = Some (concat [''ab'', ''cd''])"
proof -
  let ?a = "[(1, ''cd'', io_good), (0::int, ''ab'', io_good)]"
  let ?b = "[(0::int, ''ab'', io_good), (1, ''cd'', io_good)]"
  have s: "sessions service0 ''u1'' = Some session0"
    by (simp add: service0_def)
  have t: "total_chunks session0 = int (length [''ab'', ''cd''])"
    by (simp add: session0_def)
  have p: "mset (map fst ?a) = mset [0..int (length [''ab'', ''cd'']) - 1]"
    "mset (map fst ?b) = mset [0..int (length [''ab'', ''cd'']) - 1]"
    by (simp_all add: upto_0_1)
  have d: "\<forall>(i, d, io) \<in> set ?a. d = [''ab'', ''cd''] ! nat i"
    "\<forall>(i, d, io) \<in> set ?b. d = [''ab'', ''cd''] ! nat i"
    by simp_all
  have u: "upload_all service0 ''u1'' (int (length [''ab'', ''cd''])) ?a = (service_full, True)"
    "upload_all service0 ''u1'' (int (length [''ab'', ''cd''])) ?b = (service_full_b, True)"
    using service0_upload_out_of_order service0_upload_in_order
    by (simp_all del: upload_all.simps)
  have n: "\<forall>i \<in> set [0..int (length [''ab'', ''cd'']) - 1]. \<forall>old.
      chunk_file (storage service0) (''u1'', i) = Some old \<and>
      length old = length ([''ab'', ''cd''] ! nat i) \<longrightarrow> old = [''ab'', ''cd''] ! nat i"
    by (simp add: chunk_file_def service0_def empty_storage_def)
  from arrival_order_irrelevant [OF s t p(1) d(1) u(1) service_full_complete p(2) d(2) u(2)
      service_full_b_complete] n
  have "completed (storage service_done) ''a.bin'' = Some (concat [''ab'', ''cd''])"
    by blast
  with service0_upload_out_of_order service0_upload_in_order service_full_complete
    service_full_b_complete show ?thesis
    by (simp del: upload_all.simps)
qed


section \<open>The example session as init_upload creates it\<close>

lemma service0_from_init_upload:
  "init_upload ''u1'' ''t0''
     \<lparr>storage = empty_storage, svc_chunk_size = 2, sessions = Map.empty\<rparr>
     \<lparr>req_filename = ''a.bin'', req_totalSize = 4, req_checksum = None\<rparr> =
   Inr (service0, ''u1'', 2)"
  by (simp add: init_upload_def service0_def session0_def)

end
